theory Spec2Isabelle
  imports Complex_Main "HOL-Library.Log_Nat" "HOL-Library.AList"
begin


section \<open>Python values and arithmetic\<close>

text \<open>
  The fetchers work on the scalars the CSV parser produces: Python \<open>int\<close> (unbounded),
  Python \<open>float\<close> (IEEE binary64) and \<open>str\<close>. A finite float is kept as the
  rational number it denotes; every float operation rounds its exact result to the nearest
  binary64 value, ties to even, as the hardware does. The two zeros of binary64 are not
  told apart (Python's \<open>==\<close> does not tell them apart either, and no division by a
  zero is ever carried out: Python raises first).
\<close>

datatype pyfloat = Finite rat | PosInf | NegInf | NaN

datatype pyval = PInt int | PFloat pyfloat | PStr string

datatype error = TypeError | ValueError | OverflowError | ZeroDivisionError | KeyError

definition bind_err :: "error + 'a \<Rightarrow> ('a \<Rightarrow> error + 'b) \<Rightarrow> error + 'b" where
  "bind_err m f = (case m of Inl e \<Rightarrow> Inl e | Inr x \<Rightarrow> f x)"

subsection \<open>Rounding to binary64\<close>

definition round_half_even :: "rat \<Rightarrow> int" where
  "round_half_even x = (let n = \<lfloor>x\<rfloor>; f = x - of_int n in
     if f < 1 / 2 then n else if 1 / 2 < f then n + 1 else if even n then n else n + 1)"

text \<open>\<open>ilog2 q\<close> is the binary exponent of a positive rational: \<open>2^e \<le> q < 2^(e+1)\<close>.\<close>

definition ilog2 :: "rat \<Rightarrow> int" where
  "ilog2 q = (if 1 \<le> q then bitlen \<lfloor>q\<rfloor> - 1 else - bitlen (\<lceil>1 / q\<rceil> - 1))"

text \<open>The exponent of the unit in the last place: 53 significant bits, subnormals below \<open>2^-1022\<close>.\<close>

definition ulp_exp :: "rat \<Rightarrow> int" where
  "ulp_exp q = max (ilog2 \<bar>q\<bar>) (- 1022) - 52"

definition nearest :: "rat \<Rightarrow> rat" where
  "nearest q = (if q = 0 then 0 else
     of_int (round_half_even (q / 2 powi ulp_exp q)) * 2 powi ulp_exp q)"

definition round_double :: "rat \<Rightarrow> pyfloat" where
  "round_double q = (let r = nearest q in
     if r = 0 then Finite 0
     else if 1024 \<le> ilog2 \<bar>r\<bar> then (if 0 < r then PosInf else NegInf)
     else Finite r)"

subsection \<open>IEEE operations on floats\<close>

fun fneg :: "pyfloat \<Rightarrow> pyfloat" where
  "fneg (Finite a) = Finite (- a)"
| "fneg PosInf = NegInf"
| "fneg NegInf = PosInf"
| "fneg NaN = NaN"

fun fsign :: "pyfloat \<Rightarrow> int" where
  "fsign (Finite a) = (if a < 0 then - 1 else if a = 0 then 0 else 1)"
| "fsign PosInf = 1"
| "fsign NegInf = - 1"
| "fsign NaN = 0"

fun fadd :: "pyfloat \<Rightarrow> pyfloat \<Rightarrow> pyfloat" where
  "fadd (Finite a) (Finite b) = round_double (a + b)"
| "fadd NaN y = NaN"
| "fadd x NaN = NaN"
| "fadd PosInf NegInf = NaN"
| "fadd NegInf PosInf = NaN"
| "fadd PosInf y = PosInf"
| "fadd NegInf y = NegInf"
| "fadd (Finite a) y = y"

definition fsub :: "pyfloat \<Rightarrow> pyfloat \<Rightarrow> pyfloat" where
  "fsub x y = fadd x (fneg y)"

fun fmul :: "pyfloat \<Rightarrow> pyfloat \<Rightarrow> pyfloat" where
  "fmul (Finite a) (Finite b) = round_double (a * b)"
| "fmul NaN y = NaN"
| "fmul x NaN = NaN"
| "fmul x y = (let s = fsign x * fsign y in
     if s = 0 then NaN else if 0 < s then PosInf else NegInf)"

text \<open>Division is only ever called with a divisor that is not zero.\<close>

fun fdiv :: "pyfloat \<Rightarrow> pyfloat \<Rightarrow> pyfloat" where
  "fdiv (Finite a) (Finite b) = round_double (a / b)"
| "fdiv NaN y = NaN"
| "fdiv x NaN = NaN"
| "fdiv (Finite a) y = Finite 0"
| "fdiv x (Finite b) = (if 0 < fsign x * fsign (Finite b) then PosInf else NegInf)"
| "fdiv x y = NaN"

fun flt :: "pyfloat \<Rightarrow> pyfloat \<Rightarrow> bool" where
  "flt (Finite a) (Finite b) = (a < b)"
| "flt NaN y = False"
| "flt x NaN = False"
| "flt x NegInf = False"
| "flt PosInf y = False"
| "flt x y = True"

text \<open>
  \<open>round(x, ndigits)\<close> on a finite float: the exact value is rounded to \<open>ndigits\<close>
  decimals, ties to even, and the decimal result is converted back to the nearest float.
  Infinities and NaN round to themselves.
\<close>

fun float_round :: "pyfloat \<Rightarrow> nat \<Rightarrow> pyfloat" where
  "float_round (Finite a) ndigits =
     round_double (of_int (round_half_even (a * 10 ^ ndigits)) / 10 ^ ndigits)"
| "float_round x ndigits = x"

subsection \<open>Python operators\<close>

definition int_to_float :: "int \<Rightarrow> error + pyfloat" where
  "int_to_float n = (case round_double (of_int n) of
     Finite r \<Rightarrow> Inr (Finite r) | _ \<Rightarrow> Inl OverflowError)"

definition float_truediv :: "pyfloat \<Rightarrow> pyfloat \<Rightarrow> error + pyval" where
  "float_truediv x y = (if y = Finite 0 then Inl ZeroDivisionError else Inr (PFloat (fdiv x y)))"

fun py_add :: "pyval \<Rightarrow> pyval \<Rightarrow> error + pyval" where
  "py_add (PInt a) (PInt b) = Inr (PInt (a + b))"
| "py_add (PInt a) (PFloat y) = bind_err (int_to_float a) (\<lambda>x. Inr (PFloat (fadd x y)))"
| "py_add (PFloat x) (PInt b) = bind_err (int_to_float b) (\<lambda>y. Inr (PFloat (fadd x y)))"
| "py_add (PFloat x) (PFloat y) = Inr (PFloat (fadd x y))"
| "py_add (PStr s) (PStr t) = Inr (PStr (s @ t))"
| "py_add v w = Inl TypeError"

fun py_sub :: "pyval \<Rightarrow> pyval \<Rightarrow> error + pyval" where
  "py_sub (PInt a) (PInt b) = Inr (PInt (a - b))"
| "py_sub (PInt a) (PFloat y) = bind_err (int_to_float a) (\<lambda>x. Inr (PFloat (fsub x y)))"
| "py_sub (PFloat x) (PInt b) = bind_err (int_to_float b) (\<lambda>y. Inr (PFloat (fsub x y)))"
| "py_sub (PFloat x) (PFloat y) = Inr (PFloat (fsub x y))"
| "py_sub v w = Inl TypeError"

definition str_repeat :: "string \<Rightarrow> int \<Rightarrow> error + pyval" where
  "str_repeat s n = (if n < - (2 ^ 63) \<or> 2 ^ 63 \<le> n then Inl OverflowError
     else Inr (PStr (concat (replicate (nat n) s))))"

fun py_mul :: "pyval \<Rightarrow> pyval \<Rightarrow> error + pyval" where
  "py_mul (PInt a) (PInt b) = Inr (PInt (a * b))"
| "py_mul (PInt a) (PFloat y) = bind_err (int_to_float a) (\<lambda>x. Inr (PFloat (fmul x y)))"
| "py_mul (PFloat x) (PInt b) = bind_err (int_to_float b) (\<lambda>y. Inr (PFloat (fmul x y)))"
| "py_mul (PFloat x) (PFloat y) = Inr (PFloat (fmul x y))"
| "py_mul (PStr s) (PInt n) = str_repeat s n"
| "py_mul (PInt n) (PStr s) = str_repeat s n"
| "py_mul v w = Inl TypeError"

fun py_truediv :: "pyval \<Rightarrow> pyval \<Rightarrow> error + pyval" where
  "py_truediv (PInt a) (PInt b) =
     (if b = 0 then Inl ZeroDivisionError
      else (case round_double (of_int a / of_int b) of
              Finite r \<Rightarrow> Inr (PFloat (Finite r)) | _ \<Rightarrow> Inl OverflowError))"
| "py_truediv (PInt a) (PFloat y) = bind_err (int_to_float a) (\<lambda>x. float_truediv x y)"
| "py_truediv (PFloat x) (PInt b) = bind_err (int_to_float b) (\<lambda>y. float_truediv x y)"
| "py_truediv (PFloat x) (PFloat y) = float_truediv x y"
| "py_truediv v w = Inl TypeError"

fun str_lt :: "string \<Rightarrow> string \<Rightarrow> bool" where
  "str_lt [] [] = False"
| "str_lt [] (y # ys) = True"
| "str_lt (x # xs) [] = False"
| "str_lt (x # xs) (y # ys) =
     (if (of_char x :: nat) < of_char y then True
      else if (of_char y :: nat) < of_char x then False
      else str_lt xs ys)"

text \<open>An int is compared with a float by its exact value, without rounding.\<close>

fun py_lt :: "pyval \<Rightarrow> pyval \<Rightarrow> error + bool" where
  "py_lt (PInt a) (PInt b) = Inr (a < b)"
| "py_lt (PInt a) (PFloat y) = Inr (flt (Finite (of_int a)) y)"
| "py_lt (PFloat x) (PInt b) = Inr (flt x (Finite (of_int b)))"
| "py_lt (PFloat x) (PFloat y) = Inr (flt x y)"
| "py_lt (PStr s) (PStr t) = Inr (str_lt s t)"
| "py_lt v w = Inl TypeError"

definition py_gt :: "pyval \<Rightarrow> pyval \<Rightarrow> error + bool" where
  "py_gt v w = py_lt w v"

text \<open>\<open>min(a, b)\<close> keeps \<open>a\<close> unless \<open>b < a\<close>; \<open>max(a, b)\<close> keeps \<open>a\<close> unless \<open>b > a\<close>.\<close>

definition py_min :: "pyval \<Rightarrow> pyval \<Rightarrow> error + pyval" where
  "py_min a b = bind_err (py_lt b a) (\<lambda>less. Inr (if less then b else a))"

definition py_max :: "pyval \<Rightarrow> pyval \<Rightarrow> error + pyval" where
  "py_max a b = bind_err (py_gt b a) (\<lambda>greater. Inr (if greater then b else a))"

text \<open>\<open>round(v, ndigits)\<close> with \<open>ndigits \<ge> 0\<close>: an int is returned as it is.\<close>

fun py_round :: "pyval \<Rightarrow> nat \<Rightarrow> error + pyval" where
  "py_round (PInt a) ndigits = Inr (PInt a)"
| "py_round (PFloat (Finite a)) ndigits =
     (case float_round (Finite a) ndigits of
        Finite r \<Rightarrow> Inr (PFloat (Finite r)) | _ \<Rightarrow> Inl OverflowError)"
| "py_round (PFloat x) ndigits = Inr (PFloat x)"
| "py_round (PStr s) ndigits = Inl TypeError"

fun py_truthy :: "pyval \<Rightarrow> bool" where
  "py_truthy (PInt a) = (a \<noteq> 0)"
| "py_truthy (PFloat x) = (x \<noteq> Finite 0)"
| "py_truthy (PStr s) = (s \<noteq> [])"

subsection \<open>Dictionaries\<close>

text \<open>A \<open>dict\<close> with string keys is an association list with distinct keys, in insertion order.\<close>

type_synonym raw_map = "(string \<times> pyval) list"

definition dict_get :: "(string \<times> 'v) list \<Rightarrow> string \<Rightarrow> 'v \<Rightarrow> 'v" where
  "dict_get d k dflt = (case map_of d k of None \<Rightarrow> dflt | Some v \<Rightarrow> v)"

definition dict_index :: "(string \<times> 'v) list \<Rightarrow> string \<Rightarrow> error + 'v" where
  "dict_index d k = (case map_of d k of None \<Rightarrow> Inl KeyError | Some v \<Rightarrow> Inr v)"

text \<open>
  A dict display \<open>{k1: e1, k2: e2, ...}\<close> evaluates its entries from left to right; the
  first entry that raises ends the evaluation.
\<close>

fun build_dict :: "(string \<times> (error + pyval)) list \<Rightarrow> error + raw_map" where
  "build_dict [] = Inr []"
| "build_dict ((k, c) # rest) =
     bind_err c (\<lambda>v. bind_err (build_dict rest) (\<lambda>d. Inr ((k, v) # d)))"

section \<open>The tabular response parser\<close>

subsection \<open>String operations\<close>

text \<open>
  Strings are lists of characters with code points below 256. \<open>isspace\<close> is Python's
  \<open>str.isspace\<close> on that range.
\<close>

definition isspace :: "char \<Rightarrow> bool" where
  "isspace c = (let n = (of_char c :: nat) in
     (9 \<le> n \<and> n \<le> 13) \<or> (28 \<le> n \<and> n \<le> 32) \<or> n = 133 \<or> n = 160)"

definition py_strip :: "string \<Rightarrow> string" where
  "py_strip s = rev (dropWhile isspace (rev (dropWhile isspace s)))"

definition rstrip_cr :: "string \<Rightarrow> string" where
  "rstrip_cr s = rev (dropWhile (\<lambda>c. c = CHR 0x0D) (rev s))"

text \<open>\<open>s.split(sep)\<close> for a separator of one character.\<close>

fun split_on :: "char \<Rightarrow> string \<Rightarrow> string list" where
  "split_on sep [] = [[]]"
| "split_on sep (c # cs) =
     (if c = sep then [] # split_on sep cs
      else (case split_on sep cs of w # ws \<Rightarrow> (c # w) # ws | [] \<Rightarrow> [[c]]))"

fun startswith :: "string \<Rightarrow> string \<Rightarrow> bool" where
  "startswith s [] = True"
| "startswith [] (p # ps) = False"
| "startswith (c # cs) (p # ps) = (c = p \<and> startswith cs ps)"

subsection \<open>\<open>int(value)\<close> and \<open>float(value)\<close>\<close>

definition is_digit :: "char \<Rightarrow> bool" where
  "is_digit c = (48 \<le> (of_char c :: nat) \<and> (of_char c :: nat) \<le> 57)"

text \<open>After a first digit: any number of further digits, each optionally preceded by one underscore.\<close>

fun digits_rest :: "string \<Rightarrow> string \<times> string" where
  "digits_rest [] = ([], [])"
| "digits_rest [c] = (if is_digit c then ([c], []) else ([], [c]))"
| "digits_rest (c # d # cs) =
     (if is_digit c then (case digits_rest (d # cs) of (ds, r) \<Rightarrow> (c # ds, r))
      else if c = CHR ''_'' \<and> is_digit d then (case digits_rest cs of (ds, r) \<Rightarrow> (d # ds, r))
      else ([], c # d # cs))"

definition digitpart :: "string \<Rightarrow> (string \<times> string) option" where
  "digitpart s = (case s of
       [] \<Rightarrow> None
     | c # cs \<Rightarrow> if is_digit c then (case digits_rest cs of (ds, r) \<Rightarrow> Some (c # ds, r)) else None)"

definition nat_of_digits :: "string \<Rightarrow> nat" where
  "nat_of_digits ds = foldl (\<lambda>acc c. 10 * acc + (of_char c - 48)) 0 ds"

definition split_sign :: "string \<Rightarrow> bool \<times> string" where
  "split_sign s = (case s of
       [] \<Rightarrow> (False, [])
     | c # cs \<Rightarrow> if c = CHR ''-'' then (True, cs) else if c = CHR ''+'' then (False, cs) else (False, s))"

text \<open>
  \<open>int(value)\<close> in base 10; \<open>None\<close> stands for the \<open>ValueError\<close>. A literal of more than
  4300 digits is refused (the interpreter's default limit on int conversions).
\<close>

definition py_int :: "string \<Rightarrow> int option" where
  "py_int s = (case split_sign (py_strip s) of (neg, body) \<Rightarrow>
     (case digitpart body of
        Some (ds, []) \<Rightarrow>
          if 4300 < length ds then None
          else Some (if neg then - int (nat_of_digits ds) else int (nat_of_digits ds))
      | _ \<Rightarrow> None))"

definition ascii_lower :: "char \<Rightarrow> char" where
  "ascii_lower c = (if 65 \<le> (of_char c :: nat) \<and> (of_char c :: nat) \<le> 90
     then char_of ((of_char c :: nat) + 32) else c)"

text \<open>
  The decimal part of a float literal: \<open>[digitpart] "." digitpart | digitpart ["."]\<close>, then an
  optional exponent. The result is the digits before the point, the digits after it, and the
  exponent.
\<close>

definition parse_exponent :: "string \<Rightarrow> int option" where
  "parse_exponent s = (case split_sign s of (neg, body) \<Rightarrow>
     (case digitpart body of
        Some (ds, []) \<Rightarrow> Some (if neg then - int (nat_of_digits ds) else int (nat_of_digits ds))
      | _ \<Rightarrow> None))"

definition parse_number :: "string \<Rightarrow> (string \<times> string \<times> int) option" where
  "parse_number s =
     (case (case digitpart s of Some (ds, r) \<Rightarrow> (ds, r) | None \<Rightarrow> ([], s)) of (ip, r1) \<Rightarrow>
      (case (case r1 of
               c # cs \<Rightarrow> if c = CHR ''.''
                          then (case digitpart cs of Some (ds, r) \<Rightarrow> (ds, r) | None \<Rightarrow> ([], cs))
                          else ([], r1)
             | [] \<Rightarrow> ([], [])) of (fp, r2) \<Rightarrow>
       if ip = [] \<and> fp = [] then None
       else (case r2 of
               [] \<Rightarrow> Some (ip, fp, 0)
             | c # cs \<Rightarrow> if c = CHR ''e'' \<or> c = CHR ''E''
                          then (case parse_exponent cs of
                                  Some e \<Rightarrow> Some (ip, fp, e) | None \<Rightarrow> None)
                          else None)))"

text \<open>
  \<open>float(value)\<close>; \<open>None\<close> stands for the \<open>ValueError\<close>. A literal too large for a float
  gives an infinity.
\<close>

definition py_float :: "string \<Rightarrow> pyfloat option" where
  "py_float s = (case split_sign (py_strip s) of (neg, body) \<Rightarrow>
     if map ascii_lower body = ''inf'' \<or> map ascii_lower body = ''infinity''
       then Some (if neg then NegInf else PosInf)
     else if map ascii_lower body = ''nan'' then Some NaN
     else (case parse_number body of
             None \<Rightarrow> None
           | Some (ip, fp, e) \<Rightarrow>
               Some (round_double
                 ((if neg then - 1 else 1) * of_nat (nat_of_digits (ip @ fp))
                    * 10 powi (e - int (length fp))))))"

subsection \<open>\<open>_parse_csv_response\<close>\<close>

text \<open>
  The body of the \<open>try\<close> for one value: a value with a \<open>.\<close> goes through \<open>float\<close>, any
  other through \<open>int\<close>, and on \<open>ValueError\<close> the raw string is stored.
\<close>

definition coerce :: "string \<Rightarrow> pyval" where
  "coerce v = (if CHR ''.'' \<in> set v
     then (case py_float v of Some x \<Rightarrow> PFloat x | None \<Rightarrow> PStr v)
     else (case py_int v of Some n \<Rightarrow> PInt n | None \<Rightarrow> PStr v))"

text \<open>The inner loop \<open>for i, field_name in enumerate(current_field_names)\<close>.\<close>

fun store_fields :: "string list \<Rightarrow> string list \<Rightarrow> raw_map \<Rightarrow> raw_map" where
  "store_fields [] vs result = result"
| "store_fields (field_name # names) [] result = result"
| "store_fields (field_name # names) (v # vs) result =
     store_fields names vs
       (if v \<noteq> [] \<and> field_name \<noteq> [] then
          (if v \<noteq> ''None'' then AList.update field_name (coerce v) result else result)
        else result)"

text \<open>The outer loop \<open>for line in lines\<close>, with \<open>current_field_names\<close> and \<open>result\<close> as state.\<close>

fun parse_lines :: "string list \<Rightarrow> string list \<Rightarrow> raw_map \<Rightarrow> raw_map" where
  "parse_lines [] current_field_names result = result"
| "parse_lines (line # lines) current_field_names result =
     (if line = [] \<or> startswith line ''#'' then parse_lines lines current_field_names result
      else (let parts = map py_strip (split_on CHR '','' line) in
        if startswith line '',result,table,''
          then parse_lines lines (filter (\<lambda>name. name \<noteq> []) (drop 8 parts)) result
        else if startswith line '',_result,'' \<and> current_field_names \<noteq> []
          then parse_lines lines current_field_names
                 (store_fields current_field_names
                    (if 8 < length parts then drop 8 parts else []) result)
        else parse_lines lines current_field_names result))"

definition parse_csv_response :: "string \<Rightarrow> raw_map" where
  "parse_csv_response csv_data =
     (if csv_data = [] then []
      else parse_lines
             (map rstrip_cr
                (filter (\<lambda>line. py_strip line \<noteq> []) (split_on CHR 0x0A (py_strip csv_data))))
             [] [])"

text \<open>
  \<open>get_latest_all_data\<close> (and its copy \<open>get_all_raw_data\<close>): the outcome of the query is an
  input, \<open>None\<close> when the request failed.
\<close>

definition get_latest_all_data :: "string option \<Rightarrow> raw_map" where
  "get_latest_all_data csv_response = (case csv_response of
       None \<Rightarrow> []
     | Some csv \<Rightarrow> if csv \<noteq> [] then parse_csv_response csv else [])"

definition get_all_raw_data :: "string option \<Rightarrow> raw_map" where
  "get_all_raw_data csv_response = (case csv_response of
       None \<Rightarrow> []
     | Some csv \<Rightarrow> if csv \<noteq> [] then parse_csv_response csv else [])"

section \<open>The field transform layer\<close>

text \<open>
  Every view of the two fetchers first obtains the raw field map (\<open>all_data\<close>) from the
  store and then computes its output dict from it. The views below are these computations,
  as functions of \<open>all_data\<close>; statements run in source order and the first one that raises
  ends the view with that error.
\<close>

subsection \<open>\<open>EnpalDataFetcher\<close>\<close>

definition get_energy_flow_data :: "raw_map \<Rightarrow> error + raw_map" where
  "get_energy_flow_data all_data =
     bind_err (py_truediv (dict_get all_data ''Power.Production.Total'' (PInt 0)) (PInt 1000))
       (\<lambda>pv_power.
     bind_err (py_truediv (dict_get all_data ''Power.Consumption.Total'' (PInt 0)) (PInt 1000))
       (\<lambda>consumption_power.
     bind_err (py_truediv (dict_get all_data ''Power.Battery.Charge.Discharge'' (PInt 0)) (PInt 1000))
       (\<lambda>battery_power.
     bind_err (py_truediv (dict_get all_data ''Power.External.Total'' (PInt 0)) (PInt 1000))
       (\<lambda>grid_power.
     build_dict [
        (''pv_power'', py_round pv_power 2),
        (''consumption_power'', py_round consumption_power 2),
        (''battery_power'', py_round battery_power 2),
        (''grid_power'', py_round grid_power 2)]))))"

definition get_battery_data :: "raw_map \<Rightarrow> error + raw_map" where
  "get_battery_data all_data =
     (let soc = dict_get all_data ''Energy.Battery.Charge.Level'' (PInt 0);
          temperature = dict_get all_data ''Temperature.Battery'' (PInt 20);
          voltage = dict_get all_data ''Voltage.Battery'' (PInt 0);
          current = dict_get all_data ''Current.Battery'' (PInt 0);
          capacity_ah = dict_get all_data ''Energy.Battery.Ah'' (PInt 0);
          soh = dict_get all_data ''Battery.SOH'' (PInt 100)
      in build_dict [
        (''soc'', py_round soc 1),
        (''temperature'', py_round temperature 1),
        (''voltage'', py_round voltage 1),
        (''current'', py_round current 1),
        (''capacity_ah'', py_round capacity_ah 1),
        (''health'', py_round soh 1)])"

definition get_string_data :: "raw_map \<Rightarrow> error + raw_map" where
  "get_string_data all_data =
     bind_err (py_truediv (dict_get all_data ''Power.DC.String.1'' (PInt 0)) (PInt 1000))
       (\<lambda>string1_power.
     bind_err (py_truediv (dict_get all_data ''Power.DC.String.2'' (PInt 0)) (PInt 1000))
       (\<lambda>string2_power.
     (let string1_voltage = dict_get all_data ''Voltage.String.1'' (PInt 0);
          string2_voltage = dict_get all_data ''Voltage.String.2'' (PInt 0);
          string1_current = dict_get all_data ''Current.String.1'' (PInt 0);
          string2_current = dict_get all_data ''Current.String.2'' (PInt 0)
      in
     bind_err
       (bind_err (py_gt string1_power (PInt 0)) (\<lambda>pos1.
        bind_err (if pos1 then py_gt string2_power (PInt 0) else Inr False) (\<lambda>both.
          if both then
            bind_err (py_min string1_power string2_power) (\<lambda>lo.
            bind_err (py_max string1_power string2_power) (\<lambda>hi.
            bind_err (py_truediv lo hi) (\<lambda>q.
            bind_err (py_mul q (PInt 100)) (\<lambda>p. py_round p 1))))
          else Inr (PInt 100))))
       (\<lambda>balance.
     build_dict [
        (''string1_power'', py_round string1_power 2),
        (''string2_power'', py_round string2_power 2),
        (''string1_voltage'', py_round string1_voltage 1),
        (''string2_voltage'', py_round string2_voltage 1),
        (''string1_current'', py_round string1_current 1),
        (''string2_current'', py_round string2_current 1),
        (''balance_percentage'', Inr balance)]))))"

definition get_system_health_data :: "raw_map \<Rightarrow> error + raw_map" where
  "get_system_health_data all_data =
     (let inverter_temp = dict_get all_data ''Temperature.Housing.Inside'' (PInt 0);
          grid_frequency = dict_get all_data ''Frequency.Grid'' (PFloat (Finite 50));
          voltage_a = dict_get all_data ''Voltage.Phase.A'' (PInt 230);
          voltage_b = dict_get all_data ''Voltage.Phase.B'' (PInt 230);
          voltage_c = dict_get all_data ''Voltage.Phase.C'' (PInt 230)
      in
     bind_err (py_add voltage_a voltage_b) (\<lambda>ab.
     bind_err (py_add ab voltage_c) (\<lambda>abc.
     bind_err (py_truediv abc (PInt 3)) (\<lambda>grid_voltage.
     (let cpu_load = dict_get all_data ''Cpu.Load'' (PInt 0);
          memory_usage = dict_get all_data ''Memory.Usage'' (PInt 0)
      in build_dict [
        (''inverter_temp'', py_round inverter_temp 1),
        (''grid_frequency'', py_round grid_frequency 2),
        (''grid_voltage'', py_round grid_voltage 1),
        (''cpu_load'', py_round cpu_load 1),
        (''memory_usage'', py_round memory_usage 1),
        (''system_uptime'', Inr (PInt 0))])))))"

definition get_daily_summary :: "raw_map \<Rightarrow> error + raw_map" where
  "get_daily_summary all_data =
     (let production_day = dict_get all_data ''Energy.Production.Total.Day'' (PInt 0);
          consumption_day = dict_get all_data ''Energy.Consumption.Total.Day'' (PInt 0);
          export_day = dict_get all_data ''Energy.Grid.Export.Day'' (PInt 0);
          import_day = dict_get all_data ''Energy.Grid.Import.Day'' (PInt 0)
      in
     bind_err (py_sub export_day import_day) (\<lambda>grid_export_day.
     bind_err
       (bind_err (py_gt consumption_day (PInt 0)) (\<lambda>positive.
          if positive then
            bind_err (py_sub production_day export_day) (\<lambda>self_consumption.
            bind_err (py_truediv self_consumption consumption_day) (\<lambda>q.
            bind_err (py_mul q (PInt 100)) (\<lambda>p.
            bind_err (py_round p 1) (\<lambda>r. py_min (PInt 100) r))))
          else Inr (PInt 0)))
       (\<lambda>autarky.
     build_dict [
        (''production_today'', py_round production_day 2),
        (''consumption_today'', py_round consumption_day 2),
        (''grid_export_today'', bind_err (py_max (PInt 0) grid_export_day) (\<lambda>m. py_round m 2)),
        (''autarky_rate'', py_max (PInt 0) autarky)])))"

subsection \<open>\<open>EnpalComprehensiveDataFetcher\<close>\<close>

definition get_power_comprehensive :: "raw_map \<Rightarrow> error + raw_map" where
  "get_power_comprehensive all_data = build_dict [
        (''production_total'', bind_err (py_truediv (dict_get all_data ''Power.Production.Total'' (PInt 0)) (PInt 1000)) (\<lambda>q. py_round q 3)),
        (''consumption_total'', bind_err (py_truediv (dict_get all_data ''Power.Consumption.Total'' (PInt 0)) (PInt 1000)) (\<lambda>q. py_round q 3)),
        (''external_total'', bind_err (py_truediv (dict_get all_data ''Power.External.Total'' (PInt 0)) (PInt 1000)) (\<lambda>q. py_round q 3)),
        (''house_total'', bind_err (py_truediv (dict_get all_data ''Power.House.Total'' (PInt 0)) (PInt 1000)) (\<lambda>q. py_round q 3)),
        (''dc_string1'', bind_err (py_truediv (dict_get all_data ''Power.DC.String.1'' (PInt 0)) (PInt 1000)) (\<lambda>q. py_round q 3)),
        (''dc_string2'', bind_err (py_truediv (dict_get all_data ''Power.DC.String.2'' (PInt 0)) (PInt 1000)) (\<lambda>q. py_round q 3)),
        (''dc_total'', bind_err (py_truediv (dict_get all_data ''Power.DC.Total'' (PInt 0)) (PInt 1000)) (\<lambda>q. py_round q 3)),
        (''ac_phase_a'', bind_err (py_truediv (dict_get all_data ''Power.AC.Phase.A'' (PInt 0)) (PInt 1000)) (\<lambda>q. py_round q 3)),
        (''ac_phase_b'', bind_err (py_truediv (dict_get all_data ''Power.AC.Phase.B'' (PInt 0)) (PInt 1000)) (\<lambda>q. py_round q 3)),
        (''ac_phase_c'', bind_err (py_truediv (dict_get all_data ''Power.AC.Phase.C'' (PInt 0)) (PInt 1000)) (\<lambda>q. py_round q 3)),
        (''battery_charge_discharge'', bind_err (py_truediv (dict_get all_data ''Power.Battery.Charge.Discharge'' (PInt 0)) (PInt 1000)) (\<lambda>q. py_round q 3)),
        (''battery_charge_discharge_set'', bind_err (py_truediv (dict_get all_data ''Power.Battery.Charge.Discharge.Set'' (PInt 0)) (PInt 1000)) (\<lambda>q. py_round q 3)),
        (''battery_charge_max'', bind_err (py_truediv (dict_get all_data ''Power.Battery.Charge.Max'' (PInt 0)) (PInt 1000)) (\<lambda>q. py_round q 3)),
        (''battery_discharge_max'', bind_err (py_truediv (dict_get all_data ''Power.Battery.Discharge.Max'' (PInt 0)) (PInt 1000)) (\<lambda>q. py_round q 3)),
        (''storage_total'', bind_err (py_truediv (dict_get all_data ''Power.Storage.Total'' (PInt 0)) (PInt 1000)) (\<lambda>q. py_round q 3)),
        (''grid_export'', bind_err (py_truediv (dict_get all_data ''Power.Grid.Export'' (PInt 0)) (PInt 1000)) (\<lambda>q. py_round q 3)),
        (''power_factor'', py_round (dict_get all_data ''Power.Factor'' (PInt 0)) 3),
        (''reactive_power'', bind_err (py_truediv (dict_get all_data ''Power.Reactive'' (PInt 0)) (PInt 1000)) (\<lambda>q. py_round q 3)),
        (''wallbox_charging'', bind_err (py_truediv (dict_get all_data ''Power.Wallbox.Connector.1.Charging'' (PInt 0)) (PInt 1000)) (\<lambda>q. py_round q 3)),
        (''wallbox_offered'', bind_err (py_truediv (dict_get all_data ''Power.Wallbox.Connector.1.Offered'' (PInt 0)) (PInt 1000)) (\<lambda>q. py_round q 3)),
        (''wallbox_requested'', bind_err (py_truediv (dict_get all_data ''Power.Wallbox.Connector.1.Charging.Requested'' (PInt 0)) (PInt 1000)) (\<lambda>q. py_round q 3))]"

definition get_energy_comprehensive :: "raw_map \<Rightarrow> error + raw_map" where
  "get_energy_comprehensive all_data = build_dict [
        (''battery_ah'', py_round (dict_get all_data ''Energy.Battery.Ah'' (PInt 0)) 2),
        (''battery_charge_level'', py_round (dict_get all_data ''Energy.Battery.Charge.Level'' (PInt 0)) 1),
        (''battery_charge_level_absolute'', py_round (dict_get all_data ''Energy.Battery.Charge.Level.Absolute'' (PInt 0)) 1),
        (''battery_charge_load'', Inr (dict_get all_data ''Energy.Battery.Charge.Load'' (PInt 0))),
        (''storage_level'', Inr (dict_get all_data ''Energy.Storage.Level'' (PInt 0))),
        (''percent_storage_level'', py_round (dict_get all_data ''Percent.Storage.Level'' (PInt 0)) 1),
        (''battery_charge_day'', py_round (dict_get all_data ''Energy.Battery.Charge.Day'' (PInt 0)) 2),
        (''battery_discharge_day'', py_round (dict_get all_data ''Energy.Battery.Discharge.Day'' (PInt 0)) 2),
        (''consumption_total_day'', py_round (dict_get all_data ''Energy.Consumption.Total.Day'' (PInt 0)) 2),
        (''production_total_day'', py_round (dict_get all_data ''Energy.Production.Total.Day'' (PInt 0)) 2),
        (''grid_export_day'', py_round (dict_get all_data ''Energy.Grid.Export.Day'' (PInt 0)) 2),
        (''grid_import_day'', py_round (dict_get all_data ''Energy.Grid.Import.Day'' (PInt 0)) 2),
        (''external_total_in_day'', py_round (dict_get all_data ''Energy.External.Total.In.Day'' (PInt 0)) 2),
        (''external_total_out_day'', py_round (dict_get all_data ''Energy.External.Total.Out.Day'' (PInt 0)) 2),
        (''storage_total_in_day'', py_round (dict_get all_data ''Energy.Storage.Total.In.Day'' (PInt 0)) 2),
        (''storage_total_out_day'', py_round (dict_get all_data ''Energy.Storage.Total.Out.Day'' (PInt 0)) 2),
        (''battery_charge_lifetime'', py_round (dict_get all_data ''Energy.Battery.Charge.Lifetime'' (PInt 0)) 1),
        (''battery_discharge_lifetime'', py_round (dict_get all_data ''Energy.Battery.Discharge.Lifetime'' (PInt 0)) 1),
        (''consumption_total_lifetime'', py_round (dict_get all_data ''Energy.Consumption.Total.Lifetime'' (PInt 0)) 1),
        (''production_total_lifetime'', py_round (dict_get all_data ''Energy.Production.Total.Lifetime'' (PInt 0)) 1),
        (''grid_export_lifetime'', py_round (dict_get all_data ''Energy.Grid.Export.Lifetime'' (PInt 0)) 1),
        (''grid_import_lifetime'', py_round (dict_get all_data ''Energy.Grid.Import.Lifetime'' (PInt 0)) 1),
        (''wallbox_charged_total'', py_round (dict_get all_data ''Energy.Wallbox.Connector.1.Charged.Total'' (PInt 0)) 0)]"

definition get_voltage_comprehensive :: "raw_map \<Rightarrow> error + raw_map" where
  "get_voltage_comprehensive all_data = build_dict [
        (''battery'', py_round (dict_get all_data ''Voltage.Battery'' (PInt 0)) 1),
        (''phase_a'', py_round (dict_get all_data ''Voltage.Phase.A'' (PInt 0)) 1),
        (''phase_b'', py_round (dict_get all_data ''Voltage.Phase.B'' (PInt 0)) 1),
        (''phase_c'', py_round (dict_get all_data ''Voltage.Phase.C'' (PInt 0)) 1),
        (''phase_average'', bind_err (py_add (dict_get all_data ''Voltage.Phase.A'' (PInt 0))
            (dict_get all_data ''Voltage.Phase.B'' (PInt 0))) (\<lambda>ab.
          bind_err (py_add ab (dict_get all_data ''Voltage.Phase.C'' (PInt 0))) (\<lambda>abc.
          bind_err (py_truediv abc (PInt 3)) (\<lambda>q. py_round q 1)))),
        (''string1'', py_round (dict_get all_data ''Voltage.String.1'' (PInt 0)) 1),
        (''string2'', py_round (dict_get all_data ''Voltage.String.2'' (PInt 0)) 1),
        (''wallbox_phase_a'', py_round (dict_get all_data ''Voltage.Wallbox.Connector.1.Phase.A'' (PInt 0)) 1),
        (''wallbox_phase_b'', py_round (dict_get all_data ''Voltage.Wallbox.Connector.1.Phase.B'' (PInt 0)) 1),
        (''wallbox_phase_c'', py_round (dict_get all_data ''Voltage.Wallbox.Connector.1.Phase.C'' (PInt 0)) 1)]"

definition get_current_comprehensive :: "raw_map \<Rightarrow> error + raw_map" where
  "get_current_comprehensive all_data = build_dict [
        (''battery'', py_round (dict_get all_data ''Current.Battery'' (PInt 0)) 2),
        (''string1'', py_round (dict_get all_data ''Current.String.1'' (PInt 0)) 2),
        (''string2'', py_round (dict_get all_data ''Current.String.2'' (PInt 0)) 2),
        (''wallbox_phase_a'', py_round (dict_get all_data ''Current.Wallbox.Connector.1.Phase.A'' (PInt 0)) 2),
        (''wallbox_phase_b'', py_round (dict_get all_data ''Current.Wallbox.Connector.1.Phase.B'' (PInt 0)) 2),
        (''wallbox_phase_c'', py_round (dict_get all_data ''Current.Wallbox.Connector.1.Phase.C'' (PInt 0)) 2)]"

definition get_temperature_comprehensive :: "raw_map \<Rightarrow> error + raw_map" where
  "get_temperature_comprehensive all_data = build_dict [
        (''battery'', py_round (dict_get all_data ''Temperature.Battery'' (PInt 0)) 1),
        (''housing_inside'', py_round (dict_get all_data ''Temperature.Housing.Inside'' (PInt 0)) 1)]"

definition get_battery_comprehensive :: "raw_map \<Rightarrow> error + raw_map" where
  "get_battery_comprehensive all_data =
     (let soc = dict_get all_data ''Energy.Battery.Charge.Level'' (PInt 0);
          voltage = dict_get all_data ''Voltage.Battery'' (PInt 0);
          current = dict_get all_data ''Current.Battery'' (PInt 0);
          capacity_ah = dict_get all_data ''Energy.Battery.Ah'' (PInt 0);
          soh = dict_get all_data ''Battery.SOH'' (PInt 100)
      in build_dict [
        (''soc_percent'', py_round soc 1),
        (''soh_percent'', py_round soh 1),
        (''charge_level_max'', Inr (dict_get all_data ''Battery.ChargeLevel.Max'' (PInt 100))),
        (''charge_level_min'', Inr (dict_get all_data ''Battery.ChargeLevel.Min'' (PInt 10))),
        (''charge_level_min_on_grid'',
           Inr (dict_get all_data ''Battery.ChargeLevel.MinOnGrid'' (PInt 10))),
        (''voltage'', py_round voltage 1),
        (''current'', py_round current 2),
        (''capacity_ah'', py_round capacity_ah 1),
        (''power_kw'',
           if py_truthy voltage \<and> py_truthy current then
             bind_err (py_mul voltage current) (\<lambda>vc.
             bind_err (py_truediv vc (PInt 1000)) (\<lambda>q. py_round q 3))
           else Inr (PInt 0)),
        (''capacity_kwh'',
           if py_truthy capacity_ah \<and> py_truthy voltage then
             bind_err (py_mul capacity_ah voltage) (\<lambda>cv.
             bind_err (py_truediv cv (PInt 1000)) (\<lambda>q. py_round q 1))
           else Inr (PInt 0)),
        (''available_kwh'',
           if list_all py_truthy [soc, capacity_ah, voltage] then
             bind_err (py_mul soc capacity_ah) (\<lambda>sc.
             bind_err (py_mul sc voltage) (\<lambda>scv.
             bind_err (py_truediv scv (PInt 100000)) (\<lambda>q. py_round q 1)))
           else Inr (PInt 0)),
        (''temperature'', py_round (dict_get all_data ''Temperature.Battery'' (PInt 0)) 1),
        (''charged_today_kwh'', py_round (dict_get all_data ''Energy.Battery.Charge.Day'' (PInt 0)) 2),
        (''discharged_today_kwh'',
           py_round (dict_get all_data ''Energy.Battery.Discharge.Day'' (PInt 0)) 2),
        (''charged_lifetime_mwh'',
           py_round (dict_get all_data ''Energy.Battery.Charge.Lifetime'' (PInt 0)) 1),
        (''discharged_lifetime_mwh'',
           py_round (dict_get all_data ''Energy.Battery.Discharge.Lifetime'' (PInt 0)) 1)])"

section \<open>The dashboards and the refresh caches\<close>

text \<open>
  The dicts the servers cache are nested: timestamps, flags and sub-dicts next to the scalars
  of the views. A timestamp is the reading of the clock (\<open>datetime.now()\<close>) it was taken
  from.
\<close>

datatype jval =
    JVal pyval
  | JBool bool
  | JTime nat
  | JError error
  | JDict "(string \<times> jval) list"

definition view_json :: "raw_map \<Rightarrow> jval" where
  "view_json view = JDict (map (\<lambda>(k, v). (k, JVal v)) view)"

fun jtruthy :: "jval \<Rightarrow> bool" where
  "jtruthy (JVal v) = py_truthy v"
| "jtruthy (JBool b) = b"
| "jtruthy (JTime t) = True"
| "jtruthy (JError e) = True"
| "jtruthy (JDict d) = (d \<noteq> [])"

fun jdict_get :: "jval \<Rightarrow> string \<Rightarrow> jval \<Rightarrow> jval" where
  "jdict_get (JDict d) k dflt = dict_get d k dflt"
| "jdict_get v k dflt = dflt"

subsection \<open>\<open>EnpalDataFetcher.get_complete_dashboard_data\<close>\<close>

text \<open>
  Each of the five views issues its own query; the five outcomes are the inputs of one
  call. Any exception raised inside the \<open>try\<close> gives the offline dict. The clock is
  read once in the \<open>try\<close> (\<open>timestamp\<close>, used twice) and once more in the
  \<open>except\<close> branch: \<open>now\<close> and \<open>now_exc\<close> are these two readings.
\<close>

record dashboard_queries =
  energy_flow_response :: "string option"
  battery_response :: "string option"
  strings_response :: "string option"
  system_response :: "string option"
  daily_response :: "string option"

definition get_complete_dashboard_data ::
    "dashboard_queries \<Rightarrow> nat \<Rightarrow> nat \<Rightarrow> (string \<times> jval) list" where
  "get_complete_dashboard_data qs now now_exc =
     (case
        bind_err (get_energy_flow_data (get_latest_all_data (energy_flow_response qs)))
          (\<lambda>energy_flow.
        bind_err (get_battery_data (get_latest_all_data (battery_response qs)))
          (\<lambda>battery.
        bind_err (get_string_data (get_latest_all_data (strings_response qs)))
          (\<lambda>strings.
        bind_err (get_system_health_data (get_latest_all_data (system_response qs)))
          (\<lambda>system.
        bind_err (get_daily_summary (get_latest_all_data (daily_response qs)))
          (\<lambda>daily.
        bind_err
          (build_dict [
             (''total_string_power'',
                bind_err (dict_index strings ''string1_power'') (\<lambda>p1.
                bind_err (dict_index strings ''string2_power'') (\<lambda>p2.
                bind_err (py_add p1 p2) (\<lambda>total. py_round total 2)))),
             (''string_balance'', dict_index strings ''balance_percentage''),
             (''battery_capacity_kwh'',
                bind_err (dict_index battery ''voltage'') (\<lambda>v.
                bind_err (py_gt v (PInt 0)) (\<lambda>positive.
                  if positive then
                    bind_err (dict_index battery ''capacity_ah'') (\<lambda>c.
                    bind_err (dict_index battery ''voltage'') (\<lambda>v2.
                    bind_err (py_mul c v2) (\<lambda>cv.
                    bind_err (py_truediv cv (PInt 1000)) (\<lambda>q. py_round q 1))))
                  else Inr (PFloat (round_double (124 / 10))))))])
          (\<lambda>calculated.
        Inr [(''timestamp'', JTime now),
             (''status'', JDict [(''online'', JBool True),
                                 (''data_age_seconds'', JVal (PInt 60)),
                                 (''last_update'', JTime now)]),
             (''energy_flow'', view_json energy_flow),
             (''battery'', view_json battery),
             (''strings'', view_json strings),
             (''system'', view_json system),
             (''daily'', view_json daily),
             (''calculated'', view_json calculated)]))))))
      of Inr dashboard_data \<Rightarrow> dashboard_data
       | Inl e \<Rightarrow>
           [(''timestamp'', JTime now_exc),
            (''status'', JDict [(''online'', JBool False), (''error'', JError e)]),
            (''energy_flow'', JDict []),
            (''battery'', JDict []),
            (''strings'', JDict []),
            (''system'', JDict []),
            (''daily'', JDict []),
            (''calculated'', JDict [])])"

subsection \<open>\<open>EnpalAPIServer\<close>\<close>

record api_server =
  cached_data :: "(string \<times> jval) list"
  last_update :: "nat option"
  update_interval :: nat

definition init_server :: api_server where
  "init_server = \<lparr>cached_data = [], last_update = None, update_interval = 60\<rparr>"

text \<open>
  One refresh: \<open>_update_data\<close>. \<open>now\<close> and \<open>now_exc\<close> are the clock readings of
  the assembly of the dashboard, \<open>now'\<close> is the clock read when the cache is written.
\<close>

definition update_data ::
    "api_server \<Rightarrow> dashboard_queries \<Rightarrow> nat \<Rightarrow> nat \<Rightarrow> nat \<Rightarrow> api_server" where
  "update_data srv qs now now_exc now' =
     (let new_data = get_complete_dashboard_data qs now now_exc in
      if new_data \<noteq> [] \<and>
         jtruthy (jdict_get (dict_get new_data ''status'' (JDict [])) ''online'' (JBool False))
      then srv\<lparr>cached_data := new_data, last_update := Some now'\<rparr>
      else srv)"

text \<open>The \<open>/api/health\<close> handler: the \<open>healthy\<close> flag and the HTTP status.\<close>

definition api_health :: "api_server \<Rightarrow> bool \<times> nat" where
  "api_health srv =
     (let healthy = (cached_data srv \<noteq> [] \<and> last_update srv \<noteq> None) in
      (healthy, if healthy then 200 else 503))"

text \<open>A run of the background loop: one refresh per tick.\<close>

record tick =
  queries :: dashboard_queries
  clock :: nat
  clock_exc :: nat
  clock' :: nat

fun run_ticks :: "api_server \<Rightarrow> tick list \<Rightarrow> api_server" where
  "run_ticks srv [] = srv"
| "run_ticks srv (t # ts) =
     run_ticks (update_data srv (queries t) (clock t) (clock_exc t) (clock' t)) ts"

subsection \<open>\<open>EnpalComprehensiveAPIServer\<close>\<close>

record comprehensive_queries =
  power_response :: "string option"
  energy_response :: "string option"
  voltage_response :: "string option"
  current_response :: "string option"
  temperature_response :: "string option"
  battery_comp_response :: "string option"
  raw_response :: "string option"

record comprehensive_server =
  comp_cached_data :: "(string \<times> jval) list"
  comp_last_update :: "nat option"
  comp_update_interval :: nat

text \<open>
  One refresh: \<open>_update_data\<close>. Every \<open>datetime.now()\<close> is a reading of its own:
  \<open>now_timestamp\<close> for the \<open>timestamp\<close> entry, \<open>now_metadata\<close> for the
  \<open>last_update\<close> entry of the metadata, \<open>now_last\<close> for \<open>self.last_update\<close>, and
  \<open>now_exc\<close> for the \<open>timestamp\<close> entry written in the \<open>except\<close> branch.
\<close>

definition comprehensive_update_data ::
    "comprehensive_server \<Rightarrow> comprehensive_queries \<Rightarrow> nat \<Rightarrow> nat \<Rightarrow> nat \<Rightarrow> nat
       \<Rightarrow> comprehensive_server" where
  "comprehensive_update_data srv qs now_timestamp now_metadata now_last now_exc =
     (case
        bind_err (get_power_comprehensive (get_all_raw_data (power_response qs)))
          (\<lambda>power_data.
        bind_err (get_energy_comprehensive (get_all_raw_data (energy_response qs)))
          (\<lambda>energy_data.
        bind_err (get_voltage_comprehensive (get_all_raw_data (voltage_response qs)))
          (\<lambda>voltage_data.
        bind_err (get_current_comprehensive (get_all_raw_data (current_response qs)))
          (\<lambda>current_data.
        bind_err (get_temperature_comprehensive (get_all_raw_data (temperature_response qs)))
          (\<lambda>temperature_data.
        bind_err (get_battery_comprehensive (get_all_raw_data (battery_comp_response qs)))
          (\<lambda>battery_data.
        (let raw_data = get_all_raw_data (raw_response qs) in
        Inr [(''timestamp'', JTime now_timestamp),
             (''metadata'', JDict [(''total_fields_captured'', JVal (PInt (int (length raw_data)))),
                                   (''last_update'', JTime now_metadata),
                                   (''system_online'', JBool True)]),
             (''power'', view_json power_data),
             (''energy'', view_json energy_data),
             (''voltage'', view_json voltage_data),
             (''current'', view_json current_data),
             (''temperature'', view_json temperature_data),
             (''battery'', view_json battery_data),
             (''raw_data'', view_json raw_data)])))))))
      of Inr data \<Rightarrow> srv\<lparr>comp_cached_data := data, comp_last_update := Some now_last\<rparr>
       | Inl e \<Rightarrow>
           srv\<lparr>comp_cached_data :=
             [(''timestamp'', JTime now_exc),
              (''metadata'', JDict [(''system_online'', JBool False), (''error'', JError e)]),
              (''power'', JDict []), (''energy'', JDict []), (''voltage'', JDict []),
              (''current'', JDict []), (''temperature'', JDict []), (''battery'', JDict []),
              (''raw_data'', JDict [])]\<rparr>)"

section \<open>Notions used in the statements\<close>

text \<open>\<open>sep.join(fields)\<close>: a line of the tabular payload is its fields joined by commas.\<close>

fun join_with :: "char \<Rightarrow> string list \<Rightarrow> string" where
  "join_with sep [] = []"
| "join_with sep [f] = f"
| "join_with sep (f # g # fs) = f @ sep # join_with sep (g # fs)"

text \<open>
  A reading: an int of magnitude at most \<open>2^300\<close>, or a finite float that is zero or of
  magnitude between \<open>2^-300\<close> and \<open>2^300\<close>. \<open>readings all_data names\<close>: each of the
  fields \<open>names\<close> is absent from the raw field map or holds a reading.
\<close>

fun reading :: "pyval \<Rightarrow> bool" where
  "reading (PInt n) = (\<bar>n\<bar> \<le> 2 ^ 300)"
| "reading (PFloat (Finite a)) = (a = 0 \<or> (1 / 2 ^ 300 \<le> \<bar>a\<bar> \<and> \<bar>a\<bar> \<le> 2 ^ 300))"
| "reading v = False"

definition field_ok :: "raw_map \<Rightarrow> string \<Rightarrow> bool" where
  "field_ok all_data field = (case map_of all_data field of None \<Rightarrow> True | Some v \<Rightarrow> reading v)"

definition readings :: "raw_map \<Rightarrow> string list \<Rightarrow> bool" where
  "readings all_data names = list_all (field_ok all_data) names"

text \<open>An int or a finite float of magnitude at most \<open>2^j\<close>.\<close>

fun within_pow :: "int \<Rightarrow> pyval \<Rightarrow> bool" where
  "within_pow j (PInt n) = (\<bar>(of_int n :: rat)\<bar> \<le> 2 powi j)"
| "within_pow j (PFloat (Finite a)) = (\<bar>a\<bar> \<le> 2 powi j)"
| "within_pow j v = False"

text \<open>
  The arithmetic of readings, written without the interpreter: \<open>exact\<close> is the number a
  reading denotes and \<open>as_float\<close> the float an operand is converted to when the other operand
  is a float; \<open>nearest\<close> is the rounding of every float operation. \<open>decimal nd a\<close> is
  the multiple of \<open>10^-nd\<close> nearest to \<open>a\<close> (ties to the even multiple), and
  \<open>rounded nd v\<close> is \<open>round(v, nd)\<close>: an int is left alone, a float goes to the float
  nearest to its decimal rounding.
\<close>

fun exact :: "pyval \<Rightarrow> rat" where
  "exact (PInt n) = of_int n"
| "exact (PFloat (Finite a)) = a"
| "exact v = 0"

fun as_float :: "pyval \<Rightarrow> rat" where
  "as_float (PInt n) = nearest (of_int n)"
| "as_float (PFloat (Finite a)) = a"
| "as_float v = 0"

definition decimal :: "nat \<Rightarrow> rat \<Rightarrow> rat" where
  "decimal nd a = of_int (round_half_even (a * 10 ^ nd)) / 10 ^ nd"

fun rounded :: "nat \<Rightarrow> pyval \<Rightarrow> pyval" where
  "rounded nd (PInt n) = PInt n"
| "rounded nd (PFloat (Finite a)) = PFloat (Finite (nearest (decimal nd a)))"
| "rounded nd v = v"

text \<open>Watts to kilowatts: the float nearest to a thousandth of the reading, then rounded.\<close>

definition kilo :: "pyval \<Rightarrow> rat" where
  "kilo v = nearest (exact v / 1000)"

definition kilo_rounded :: "nat \<Rightarrow> pyval \<Rightarrow> pyval" where
  "kilo_rounded nd v = PFloat (Finite (nearest (decimal nd (kilo v))))"

text \<open>
  Product, difference and quotient of two readings: exact on two ints (the quotient rounded
  once), in float arithmetic otherwise.
\<close>

fun product :: "pyval \<Rightarrow> pyval \<Rightarrow> pyval" where
  "product (PInt a) (PInt b) = PInt (a * b)"
| "product v w = PFloat (Finite (nearest (as_float v * as_float w)))"

fun difference :: "pyval \<Rightarrow> pyval \<Rightarrow> pyval" where
  "difference (PInt a) (PInt b) = PInt (a - b)"
| "difference v w = PFloat (Finite (nearest (as_float v - as_float w)))"

fun quotient :: "pyval \<Rightarrow> pyval \<Rightarrow> rat" where
  "quotient (PInt a) (PInt b) = nearest (of_int a / of_int b)"
| "quotient v w = nearest (as_float v / as_float w)"

text \<open>
  The power view: its output keys in order, each with the raw field it is read from. All
  but \<open>Power.Factor\<close> are in watts. \<open>power_entry\<close> is the entry the statement expects for
  a key: the power factor rounded to 3 decimals, any other field in kilowatts, rounded to 3
  decimals.
\<close>

definition power_fields :: "(string \<times> string) list" where
  "power_fields = [
     (''production_total'', ''Power.Production.Total''),
     (''consumption_total'', ''Power.Consumption.Total''),
     (''external_total'', ''Power.External.Total''),
     (''house_total'', ''Power.House.Total''),
     (''dc_string1'', ''Power.DC.String.1''),
     (''dc_string2'', ''Power.DC.String.2''),
     (''dc_total'', ''Power.DC.Total''),
     (''ac_phase_a'', ''Power.AC.Phase.A''),
     (''ac_phase_b'', ''Power.AC.Phase.B''),
     (''ac_phase_c'', ''Power.AC.Phase.C''),
     (''battery_charge_discharge'', ''Power.Battery.Charge.Discharge''),
     (''battery_charge_discharge_set'', ''Power.Battery.Charge.Discharge.Set''),
     (''battery_charge_max'', ''Power.Battery.Charge.Max''),
     (''battery_discharge_max'', ''Power.Battery.Discharge.Max''),
     (''storage_total'', ''Power.Storage.Total''),
     (''grid_export'', ''Power.Grid.Export''),
     (''power_factor'', ''Power.Factor''),
     (''reactive_power'', ''Power.Reactive''),
     (''wallbox_charging'', ''Power.Wallbox.Connector.1.Charging''),
     (''wallbox_offered'', ''Power.Wallbox.Connector.1.Offered''),
     (''wallbox_requested'', ''Power.Wallbox.Connector.1.Charging.Requested'')]"

definition power_entry :: "raw_map \<Rightarrow> string \<times> string \<Rightarrow> string \<times> pyval" where
  "power_entry all_data = (\<lambda>(key, field).
     (key, (if key = ''power_factor'' then rounded 3 else kilo_rounded 3)
             (dict_get all_data field (PInt 0))))"

text \<open>The watt fields of the energy-flow view, and the raw fields the string view reads.\<close>

definition energy_flow_fields :: "(string \<times> string) list" where
  "energy_flow_fields = [
     (''pv_power'', ''Power.Production.Total''),
     (''consumption_power'', ''Power.Consumption.Total''),
     (''battery_power'', ''Power.Battery.Charge.Discharge''),
     (''grid_power'', ''Power.External.Total'')]"

definition string_view_sources :: "string list" where
  "string_view_sources = [''Power.DC.String.1'', ''Power.DC.String.2'',
     ''Voltage.String.1'', ''Voltage.String.2'', ''Current.String.1'', ''Current.String.2'']"

text \<open>
  The balance of the two string powers, from the raw fields in watts: both are taken to
  kilowatts first; when both are positive, the smaller over the larger, times 100, rounded to
  1 decimal; 100 otherwise.
\<close>

definition string_balance :: "pyval \<Rightarrow> pyval \<Rightarrow> pyval" where
  "string_balance w1 w2 = (let p1 = kilo w1; p2 = kilo w2 in
     if 0 < p1 \<and> 0 < p2
     then PFloat (Finite (nearest (decimal 1 (nearest (nearest (min p1 p2 / max p1 p2) * 100)))))
     else PInt 100)"

text \<open>A number in the closed interval from 0 to 100.\<close>

fun in_percent_range :: "pyval \<Rightarrow> bool" where
  "in_percent_range (PInt n) = (0 \<le> n \<and> n \<le> 100)"
| "in_percent_range (PFloat (Finite a)) = (0 \<le> a \<and> a \<le> 100)"
| "in_percent_range v = False"

text \<open>A number that is not negative (and not NaN).\<close>

fun non_negative :: "pyval \<Rightarrow> bool" where
  "non_negative (PInt n) = (0 \<le> n)"
| "non_negative (PFloat (Finite a)) = (0 \<le> a)"
| "non_negative (PFloat PosInf) = True"
| "non_negative v = False"

text \<open>
  The raw fields the comprehensive battery view computes with, and its \<open>power_kw\<close>:
  voltage times current, in kilowatts, rounded to 3 decimals, when neither is zero; the int 0
  otherwise.
\<close>

definition battery_view_sources :: "string list" where
  "battery_view_sources = [''Energy.Battery.Charge.Level'', ''Voltage.Battery'',
     ''Current.Battery'', ''Energy.Battery.Ah'', ''Battery.SOH'', ''Temperature.Battery'',
     ''Energy.Battery.Charge.Day'', ''Energy.Battery.Discharge.Day'',
     ''Energy.Battery.Charge.Lifetime'', ''Energy.Battery.Discharge.Lifetime'']"

definition power_kw :: "pyval \<Rightarrow> pyval \<Rightarrow> pyval" where
  "power_kw voltage current =
     (if exact voltage \<noteq> 0 \<and> exact current \<noteq> 0 then kilo_rounded 3 (product voltage current)
      else PInt 0)"

text \<open>
  The raw fields of the daily summary; the autarky rate, with and without the rounding to 1
  decimal that precedes the clamps; and the net export.
\<close>

definition daily_sources :: "string list" where
  "daily_sources = [''Energy.Production.Total.Day'', ''Energy.Consumption.Total.Day'',
     ''Energy.Grid.Export.Day'', ''Energy.Grid.Import.Day'']"

definition clamp_percent :: "rat \<Rightarrow> pyval" where
  "clamp_percent r = (if 100 \<le> r then PInt 100 else if 0 < r then PFloat (Finite r) else PInt 0)"

definition autarky_rate :: "pyval \<Rightarrow> pyval \<Rightarrow> pyval \<Rightarrow> pyval" where
  "autarky_rate production exported consumption =
     (if 0 < exact consumption
      then clamp_percent (nearest (decimal 1
             (nearest (quotient (difference production exported) consumption * 100))))
      else PInt 0)"

definition autarky_rate_unrounded :: "pyval \<Rightarrow> pyval \<Rightarrow> pyval \<Rightarrow> pyval" where
  "autarky_rate_unrounded production exported consumption =
     (if 0 < exact consumption
      then clamp_percent (nearest (quotient (difference production exported) consumption * 100))
      else PInt 0)"

definition net_export :: "pyval \<Rightarrow> pyval \<Rightarrow> pyval" where
  "net_export exported imported = (let d = difference exported imported in
     rounded 2 (if 0 < exact d then d else PInt 0))"

text \<open>
  The entry of a view's result under a key: the view's error when the view raised,
  \<open>KeyError\<close> when the result has no such key.
\<close>

definition view_entry :: "error + raw_map \<Rightarrow> string \<Rightarrow> error + pyval" where
  "view_entry result key = bind_err result (\<lambda>out. dict_index out key)"

text \<open>
  The defaults of the views: for each view, every raw field it reads with the default it
  passes to \<open>all_data.get\<close>. \<open>fill defaults all_data\<close> is the raw field map completed
  with the defaults of the fields it lacks.
\<close>

definition fill :: "raw_map \<Rightarrow> raw_map \<Rightarrow> raw_map" where
  "fill defaults all_data =
     all_data @ filter (\<lambda>(field, d). map_of all_data field = None) defaults"

definition energy_flow_defaults :: raw_map where
  "energy_flow_defaults = [
     (''Power.Production.Total'', PInt 0),
     (''Power.Consumption.Total'', PInt 0),
     (''Power.Battery.Charge.Discharge'', PInt 0),
     (''Power.External.Total'', PInt 0)]"

definition battery_defaults :: raw_map where
  "battery_defaults = [
     (''Energy.Battery.Charge.Level'', PInt 0),
     (''Temperature.Battery'', PInt 20),
     (''Voltage.Battery'', PInt 0),
     (''Current.Battery'', PInt 0),
     (''Energy.Battery.Ah'', PInt 0),
     (''Battery.SOH'', PInt 100)]"

definition string_defaults :: raw_map where
  "string_defaults = [
     (''Power.DC.String.1'', PInt 0),
     (''Power.DC.String.2'', PInt 0),
     (''Voltage.String.1'', PInt 0),
     (''Voltage.String.2'', PInt 0),
     (''Current.String.1'', PInt 0),
     (''Current.String.2'', PInt 0)]"

definition system_health_defaults :: raw_map where
  "system_health_defaults = [
     (''Temperature.Housing.Inside'', PInt 0),
     (''Frequency.Grid'', PFloat (Finite 50)),
     (''Voltage.Phase.A'', PInt 230),
     (''Voltage.Phase.B'', PInt 230),
     (''Voltage.Phase.C'', PInt 230),
     (''Cpu.Load'', PInt 0),
     (''Memory.Usage'', PInt 0)]"

definition daily_defaults :: raw_map where
  "daily_defaults = [
     (''Energy.Production.Total.Day'', PInt 0),
     (''Energy.Consumption.Total.Day'', PInt 0),
     (''Energy.Grid.Export.Day'', PInt 0),
     (''Energy.Grid.Import.Day'', PInt 0)]"

definition power_defaults :: raw_map where
  "power_defaults = [
     (''Power.Production.Total'', PInt 0),
     (''Power.Consumption.Total'', PInt 0),
     (''Power.External.Total'', PInt 0),
     (''Power.House.Total'', PInt 0),
     (''Power.DC.String.1'', PInt 0),
     (''Power.DC.String.2'', PInt 0),
     (''Power.DC.Total'', PInt 0),
     (''Power.AC.Phase.A'', PInt 0),
     (''Power.AC.Phase.B'', PInt 0),
     (''Power.AC.Phase.C'', PInt 0),
     (''Power.Battery.Charge.Discharge'', PInt 0),
     (''Power.Battery.Charge.Discharge.Set'', PInt 0),
     (''Power.Battery.Charge.Max'', PInt 0),
     (''Power.Battery.Discharge.Max'', PInt 0),
     (''Power.Storage.Total'', PInt 0),
     (''Power.Grid.Export'', PInt 0),
     (''Power.Factor'', PInt 0),
     (''Power.Reactive'', PInt 0),
     (''Power.Wallbox.Connector.1.Charging'', PInt 0),
     (''Power.Wallbox.Connector.1.Offered'', PInt 0),
     (''Power.Wallbox.Connector.1.Charging.Requested'', PInt 0)]"

definition energy_defaults :: raw_map where
  "energy_defaults = [
     (''Energy.Battery.Ah'', PInt 0),
     (''Energy.Battery.Charge.Level'', PInt 0),
     (''Energy.Battery.Charge.Level.Absolute'', PInt 0),
     (''Energy.Battery.Charge.Load'', PInt 0),
     (''Energy.Storage.Level'', PInt 0),
     (''Percent.Storage.Level'', PInt 0),
     (''Energy.Battery.Charge.Day'', PInt 0),
     (''Energy.Battery.Discharge.Day'', PInt 0),
     (''Energy.Consumption.Total.Day'', PInt 0),
     (''Energy.Production.Total.Day'', PInt 0),
     (''Energy.Grid.Export.Day'', PInt 0),
     (''Energy.Grid.Import.Day'', PInt 0),
     (''Energy.External.Total.In.Day'', PInt 0),
     (''Energy.External.Total.Out.Day'', PInt 0),
     (''Energy.Storage.Total.In.Day'', PInt 0),
     (''Energy.Storage.Total.Out.Day'', PInt 0),
     (''Energy.Battery.Charge.Lifetime'', PInt 0),
     (''Energy.Battery.Discharge.Lifetime'', PInt 0),
     (''Energy.Consumption.Total.Lifetime'', PInt 0),
     (''Energy.Production.Total.Lifetime'', PInt 0),
     (''Energy.Grid.Export.Lifetime'', PInt 0),
     (''Energy.Grid.Import.Lifetime'', PInt 0),
     (''Energy.Wallbox.Connector.1.Charged.Total'', PInt 0)]"

definition voltage_defaults :: raw_map where
  "voltage_defaults = [
     (''Voltage.Battery'', PInt 0),
     (''Voltage.Phase.A'', PInt 0),
     (''Voltage.Phase.B'', PInt 0),
     (''Voltage.Phase.C'', PInt 0),
     (''Voltage.String.1'', PInt 0),
     (''Voltage.String.2'', PInt 0),
     (''Voltage.Wallbox.Connector.1.Phase.A'', PInt 0),
     (''Voltage.Wallbox.Connector.1.Phase.B'', PInt 0),
     (''Voltage.Wallbox.Connector.1.Phase.C'', PInt 0)]"

definition current_defaults :: raw_map where
  "current_defaults = [
     (''Current.Battery'', PInt 0),
     (''Current.String.1'', PInt 0),
     (''Current.String.2'', PInt 0),
     (''Current.Wallbox.Connector.1.Phase.A'', PInt 0),
     (''Current.Wallbox.Connector.1.Phase.B'', PInt 0),
     (''Current.Wallbox.Connector.1.Phase.C'', PInt 0)]"

definition temperature_defaults :: raw_map where
  "temperature_defaults = [
     (''Temperature.Battery'', PInt 0),
     (''Temperature.Housing.Inside'', PInt 0)]"

definition battery_comprehensive_defaults :: raw_map where
  "battery_comprehensive_defaults = [
     (''Energy.Battery.Charge.Level'', PInt 0),
     (''Voltage.Battery'', PInt 0),
     (''Current.Battery'', PInt 0),
     (''Energy.Battery.Ah'', PInt 0),
     (''Battery.SOH'', PInt 100),
     (''Battery.ChargeLevel.Max'', PInt 100),
     (''Battery.ChargeLevel.Min'', PInt 10),
     (''Battery.ChargeLevel.MinOnGrid'', PInt 10),
     (''Temperature.Battery'', PInt 0),
     (''Energy.Battery.Charge.Day'', PInt 0),
     (''Energy.Battery.Discharge.Day'', PInt 0),
     (''Energy.Battery.Charge.Lifetime'', PInt 0),
     (''Energy.Battery.Discharge.Lifetime'', PInt 0)]"

section \<open>Auxiliary lemmas\<close>

subsection \<open>Rounding\<close>

lemma round_half_even_nonneg: "0 \<le> x \<Longrightarrow> 0 \<le> round_half_even x"
  by (auto simp: round_half_even_def Let_def)

lemma round_half_even_le: "x \<le> of_int N \<Longrightarrow> round_half_even x \<le> N"
proof -
  assume a: "x \<le> of_int N"
  have fl: "\<lfloor>x\<rfloor> \<le> N" using a by (simp add: floor_le_iff) 
  show ?thesis
  proof (cases "\<lfloor>x\<rfloor> = N")
    case True
    then have "x - of_int \<lfloor>x\<rfloor> \<le> 0" using a by simp
    then show ?thesis using True by (simp add: round_half_even_def Let_def)
  next
    case False
    then have "\<lfloor>x\<rfloor> + 1 \<le> N" using fl by simp
    then show ?thesis by (auto simp: round_half_even_def Let_def)
  qed
qed

lemma ilog2_lower:
  assumes "0 < q"
  shows "2 powi ilog2 q \<le> q"
proof (cases "1 \<le> q")
  case True
  then have pos: "0 < \<lfloor>q\<rfloor>" by linarith
  from bitlen_bounds[OF pos] have "2 ^ nat (bitlen \<lfloor>q\<rfloor> - 1) \<le> \<lfloor>q\<rfloor>" by simp
  then have "(of_int (2 ^ nat (bitlen \<lfloor>q\<rfloor> - 1)) :: rat) \<le> of_int \<lfloor>q\<rfloor>"
    by (simp only: of_int_le_iff)
  also have "\<dots> \<le> q" by simp
  finally have "(2 :: rat) ^ nat (bitlen \<lfloor>q\<rfloor> - 1) \<le> q" by simp
  moreover have "0 \<le> bitlen \<lfloor>q\<rfloor> - 1" using pos by (simp add: bitlen_alt_def)
  ultimately show ?thesis using True by (simp add: ilog2_def power_int_def)
next
  case False
  then have q1: "q < 1" by simp
  let ?n = "\<lceil>1 / q\<rceil> - 1"
  have "1 < 1 / q" using assms q1 by simp
  then have pos: "0 < ?n" by linarith
  from bitlen_bounds[OF pos] have "?n < 2 ^ nat (bitlen ?n)" by simp
  then have "\<lceil>1 / q\<rceil> \<le> 2 ^ nat (bitlen ?n)" by simp
  then have "1 / q \<le> of_int (2 ^ nat (bitlen ?n))" by (simp only: ceiling_le_iff)
  then have "1 / q \<le> 2 ^ nat (bitlen ?n)" by simp
  then have "1 / 2 ^ nat (bitlen ?n) \<le> q" using assms
    by (simp add: field_simps)
  moreover have "(2::rat) powi (- bitlen ?n) = 1 / 2 ^ nat (bitlen ?n)"
    using bitlen_nonneg[of ?n] by (simp add: power_int_minus power_int_def field_simps)
  ultimately show ?thesis using False by (simp add: ilog2_def)
qed

lemma ilog2_less:
  assumes "0 < q" "q < 2 powi n"
  shows "ilog2 q < n"
proof (rule ccontr)
  assume "\<not> ilog2 q < n"
  then have "n \<le> ilog2 q" by simp
  then have "(2::rat) powi n \<le> 2 powi ilog2 q" by (intro power_int_increasing) auto
  with ilog2_lower[OF assms(1)] assms(2) show False by simp
qed

lemma nearest_nonneg: "0 \<le> q \<Longrightarrow> 0 \<le> nearest q"
  by (simp add: nearest_def round_half_even_nonneg)

lemma nearest_le_grid:
  assumes "q \<le> of_int m * 2 powi j" "ulp_exp q \<le> j"
  shows "nearest q \<le> of_int m * 2 powi j"
proof (cases "q = 0")
  case True
  then show ?thesis using assms by (simp add: nearest_def)
next
  case False
  let ?k = "ulp_exp q"
  have pk: "(0::rat) < 2 powi ?k" by simp
  have split: "(2::rat) powi j = 2 powi (j - ?k) * 2 powi ?k"
    by (simp flip: power_int_add)
  have nn: "0 \<le> j - ?k" using assms(2) by simp
  have "q / 2 powi ?k \<le> of_int m * 2 powi (j - ?k)"
    using assms(1) pk by (simp add: split field_simps)
  also have eq1: "of_int m * 2 powi (j - ?k) = (of_int (m * 2 ^ nat (j - ?k)) :: rat)"
    using nn by (simp add: power_int_def)
  finally have "round_half_even (q / 2 powi ?k) \<le> m * 2 ^ nat (j - ?k)"
    by (rule round_half_even_le)
  then have "(of_int (round_half_even (q / 2 powi ?k)) :: rat) \<le> of_int (m * 2 ^ nat (j - ?k))"
    by (simp only: of_int_le_iff)
  then have "(of_int (round_half_even (q / 2 powi ?k)) :: rat) * 2 powi ?k
      \<le> of_int (m * 2 ^ nat (j - ?k)) * 2 powi ?k"
    using pk by (simp only: mult_le_cancel_right_pos)
  also have "(of_int (m * 2 ^ nat (j - ?k)) :: rat) * 2 powi ?k = of_int m * 2 powi j"
    by (simp only: eq1[symmetric] mult.assoc split[symmetric])
  finally show ?thesis using False by (simp add: nearest_def)
qed

text \<open>A non-negative rational bounded by a small integer rounds to a finite float in the same range.\<close>

lemma round_double_bounded:
  assumes "0 \<le> q" "q \<le> of_int c" "c < 2 ^ 52"
  shows "\<exists>r. round_double q = Finite r \<and> 0 \<le> r \<and> r \<le> of_int c"
proof (cases "q = 0")
  case True
  then show ?thesis using assms by (simp add: round_double_def nearest_def)
next
  case False
  then have qpos: "0 < q" using assms(1) by simp
  have cpos: "0 < c" using qpos assms(2) by (smt (verit) of_int_le_0_iff order_less_le_trans not_le)
  have "(of_int c :: rat) < of_int (2 ^ 52)" using assms(3) by (simp only: of_int_less_iff)
  then have c52: "(of_int c :: rat) < 2 powi 52" by simp
  have "ilog2 q < 52" using qpos assms(2) c52 by (intro ilog2_less) auto
  then have ue: "ulp_exp q \<le> 0" using qpos by (simp add: ulp_exp_def)
  have le: "nearest q \<le> of_int c"
    using nearest_le_grid[of q c 0] assms(2) ue by simp
  have ge: "0 \<le> nearest q" using assms(1) by (rule nearest_nonneg)
  show ?thesis
  proof (cases "nearest q = 0")
    case True
    then show ?thesis using cpos by (simp add: round_double_def)
  next
    case False
    then have np: "0 < nearest q" using ge by simp
    have "nearest q < 2 powi 52" using le c52 by simp
    then have "ilog2 (nearest q) < 52" using np by (intro ilog2_less) auto
    then show ?thesis using False np le by (simp add: round_double_def Let_def)
  qed
qed

subsection \<open>Errors and dict displays\<close>

lemma bind_err_simps [simp]:
  "bind_err (Inr x) f = f x" "bind_err (Inl e) f = Inl e"
  by (simp_all add: bind_err_def)

lemma bind_err_eq_Inr: "bind_err m f = Inr y \<longleftrightarrow> (\<exists>x. m = Inr x \<and> f x = Inr y)"
  by (cases m) auto

lemma build_dict_Cons_Inr:
  "build_dict ((k, c) # rest) = Inr out \<longleftrightarrow>
     (\<exists>v d. c = Inr v \<and> build_dict rest = Inr d \<and> out = (k, v) # d)"
  by (auto simp: bind_err_eq_Inr)

lemma build_dict_keys: "build_dict es = Inr out \<Longrightarrow> map fst out = map fst es"
  by (induction es arbitrary: out) (auto simp: bind_err_eq_Inr)

lemma build_dict_index:
  "build_dict es = Inr out \<Longrightarrow> distinct (map fst es) \<Longrightarrow> (k, c) \<in> set es \<Longrightarrow> dict_index out k = c"
proof (induction es arbitrary: out)
  case Nil
  then show ?case by simp
next
  case (Cons e es)
  obtain k' c' where e: "e = (k', c')" by (cases e)
  from Cons.prems(1) obtain v d where
    vd: "c' = Inr v" "build_dict es = Inr d" "out = (k', v) # d"
    by (auto simp: e bind_err_eq_Inr)
  show ?case
  proof (cases "k = k'")
    case True
    then have "c = c'" using Cons.prems(2,3) by (auto simp: e rev_image_eqI)
    then show ?thesis using vd True by (simp add: dict_index_def)
  next
    case False
    then have "(k, c) \<in> set es" using Cons.prems(3) by (simp add: e)
    then have "dict_index d k = c" using Cons.IH[OF vd(2)] Cons.prems(2) by simp
    then show ?thesis using vd False by (simp add: dict_index_def)
  qed
qed

lemma round_double_0 [simp]: "round_double 0 = Finite 0"
  by (simp add: round_double_def nearest_def)

lemma int_to_float_consts:
  "int_to_float 1000 = Inr (Finite 1000)" "int_to_float 100 = Inr (Finite 100)"
  "int_to_float 3 = Inr (Finite 3)" "int_to_float 100000 = Inr (Finite 100000)"
  by code_simp+

subsection \<open>Splitting and stripping\<close>

lemma split_on_nonempty: "split_on sep s \<noteq> []"
  by (induction s) (auto split: list.splits)

lemma split_on_no_sep: "sep \<notin> set s \<Longrightarrow> split_on sep s = [s]"
  by (induction s) auto

lemma split_on_append: "sep \<notin> set a \<Longrightarrow> split_on sep (a @ sep # b) = a # split_on sep b"
  by (induction a) auto

lemma split_on_join:
  "fs \<noteq> [] \<Longrightarrow> \<forall>f\<in>set fs. sep \<notin> set f \<Longrightarrow> split_on sep (join_with sep fs) = fs"
  by (induction sep fs rule: join_with.induct) (auto simp: split_on_no_sep split_on_append)

lemma set_join_with: "set (join_with sep fs) \<subseteq> insert sep (\<Union>f\<in>set fs. set f)"
  by (induction sep fs rule: join_with.induct) auto

lemma dropWhile_hd: "xs \<noteq> [] \<Longrightarrow> \<not> P (hd xs) \<Longrightarrow> dropWhile P xs = xs"
  by (cases xs) auto

lemma py_strip_id:
  assumes "s \<noteq> []" "\<not> isspace (hd s)" "\<not> isspace (last s)"
  shows "py_strip s = s"
proof -
  have 1: "dropWhile isspace s = s" using assms(1,2) by (rule dropWhile_hd)
  have "rev s \<noteq> []" "\<not> isspace (hd (rev s))" using assms(1,3) by (simp_all add: hd_rev)
  then have 2: "dropWhile isspace (rev s) = rev s" by (rule dropWhile_hd)
  show ?thesis by (simp add: py_strip_def 1 2)
qed

lemma rstrip_cr_id:
  assumes "s \<noteq> []" "last s \<noteq> CHR 0x0D"
  shows "rstrip_cr s = s"
proof -
  have "rev s \<noteq> []" "\<not> (\<lambda>c. c = CHR 0x0D) (hd (rev s))" using assms by (simp_all add: hd_rev)
  then have "dropWhile (\<lambda>c. c = CHR 0x0D) (rev s) = rev s" by (rule dropWhile_hd)
  then show ?thesis by (simp add: rstrip_cr_def)
qed

lemma coerce_1: "coerce ''1'' = PInt 1"
  by code_simp

lemma coerce_2_5: "coerce ''2.5'' = PFloat (Finite (5 / 2))"
  by code_simp

lemma strip_lits:
  "py_strip ''A'' = ''A''" "py_strip ''B'' = ''B''" "py_strip ''1'' = ''1''"
  "py_strip ''2.5'' = ''2.5''"
  by code_simp+

subsection \<open>Rounding, continued\<close>

lemma round_half_even_of_int [simp]: "round_half_even (of_int n) = n"
  by (simp add: round_half_even_def)

lemma round_half_even_minus: "round_half_even (- x) = - round_half_even x"
proof (cases "x = of_int \<lfloor>x\<rfloor>")
  case True
  have "round_half_even (of_int (- \<lfloor>x\<rfloor>) :: rat) = - \<lfloor>x\<rfloor>"
    by (rule round_half_even_of_int)
  moreover have "round_half_even (of_int \<lfloor>x\<rfloor> :: rat) = \<lfloor>x\<rfloor>"
    by (rule round_half_even_of_int)
  ultimately show ?thesis using True by (metis of_int_minus)
next
  case False
  let ?n = "\<lfloor>x\<rfloor>"
  have lt: "of_int ?n < x" using False of_int_floor_le[of x] by linarith
  have up: "x < of_int ?n + 1" by linarith
  have fl: "\<lfloor>- x\<rfloor> = - ?n - 1"
  proof (rule floor_unique)
    show "of_int (- ?n - 1) \<le> - x" using up by simp
    show "- x < of_int (- ?n - 1) + 1" using lt by simp
  qed
  have ev: "even (- ?n - 1) \<longleftrightarrow> odd ?n" by simp
  define f where "f = x - of_int ?n"
  have f: "0 < f" "f < 1" using lt up by (simp_all add: f_def)
  have g: "- x - of_int (- ?n - 1) = 1 - f" by (simp add: f_def)
  show ?thesis
    unfolding round_half_even_def Let_def fl ev g f_def[symmetric]
    using f by auto
qed

lemma round_half_even_close: "\<bar>of_int (round_half_even x) - x\<bar> \<le> 1 / 2"
proof -
  have "of_int \<lfloor>x\<rfloor> \<le> x" "x < of_int \<lfloor>x\<rfloor> + 1" by linarith+
  then show ?thesis unfolding round_half_even_def Let_def by (auto simp: abs_le_iff)
qed

lemma ilog2_upper:
  assumes "0 < q"
  shows "q < 2 powi (ilog2 q + 1)"
proof (cases "1 \<le> q")
  case True
  then have pos: "0 < \<lfloor>q\<rfloor>" by linarith
  from bitlen_bounds[OF pos] have "\<lfloor>q\<rfloor> < 2 ^ nat (bitlen \<lfloor>q\<rfloor>)" by simp
  then have "\<lfloor>q\<rfloor> + 1 \<le> 2 ^ nat (bitlen \<lfloor>q\<rfloor>)" by simp
  then have "(of_int (\<lfloor>q\<rfloor> + 1) :: rat) \<le> of_int (2 ^ nat (bitlen \<lfloor>q\<rfloor>))"
    by (simp only: of_int_le_iff)
  moreover have "q < of_int (\<lfloor>q\<rfloor> + 1)" by linarith
  ultimately have "q < 2 ^ nat (bitlen \<lfloor>q\<rfloor>)" by simp
  moreover have "0 \<le> bitlen \<lfloor>q\<rfloor>" by (rule bitlen_nonneg)
  ultimately show ?thesis using True by (simp add: ilog2_def power_int_def)
next
  case False
  then have q1: "q < 1" by simp
  let ?n = "\<lceil>1 / q\<rceil> - 1"
  have "1 < 1 / q" using assms q1 by simp
  then have pos: "0 < ?n" by linarith
  have b1: "1 \<le> bitlen ?n" using pos by (simp add: bitlen_alt_def)
  from bitlen_bounds[OF pos] have "2 ^ nat (bitlen ?n - 1) \<le> ?n" by simp
  then have "(of_int (2 ^ nat (bitlen ?n - 1)) :: rat) \<le> of_int ?n"
    by (simp only: of_int_le_iff)
  moreover have "of_int ?n < 1 / q" by linarith
  ultimately have "(2::rat) ^ nat (bitlen ?n - 1) < 1 / q" by simp
  then have "q < 1 / 2 ^ nat (bitlen ?n - 1)" using assms
    by (simp add: field_simps)
  moreover have "(2::rat) powi (- bitlen ?n + 1) = 1 / 2 ^ nat (bitlen ?n - 1)"
  proof -
    have "(2::rat) powi (- bitlen ?n + 1) = 2 powi (- (bitlen ?n - 1))" by simp
    also have "\<dots> = inverse (2 powi (bitlen ?n - 1))" by (rule power_int_minus)
    also have "\<dots> = 1 / 2 ^ nat (bitlen ?n - 1)" using b1 by (simp add: power_int_def field_simps)
    finally show ?thesis .
  qed
  ultimately show ?thesis using False by (simp add: ilog2_def)
qed

lemma ilog2_le:
  assumes "0 < q" "q \<le> 2 powi n"
  shows "ilog2 q \<le> n"
proof (rule ccontr)
  assume "\<not> ilog2 q \<le> n"
  then have "n + 1 \<le> ilog2 q" by simp
  then have "(2::rat) powi (n + 1) \<le> 2 powi ilog2 q" by (intro power_int_increasing) auto
  moreover have "(2::rat) powi n < 2 powi (n + 1)" by (intro power_int_strict_increasing) auto
  ultimately show False using ilog2_lower[OF assms(1)] assms(2) by simp
qed

lemma ilog2_ge:
  assumes "0 < q" "2 powi n \<le> q"
  shows "n \<le> ilog2 q"
proof (rule ccontr)
  assume "\<not> n \<le> ilog2 q"
  then have "ilog2 q + 1 \<le> n" by simp
  then have "(2::rat) powi (ilog2 q + 1) \<le> 2 powi n" by (intro power_int_increasing) auto
  then show False using ilog2_upper[OF assms(1)] assms(2) by simp
qed

lemma ulp_exp_minus [simp]: "ulp_exp (- q) = ulp_exp q"
  by (simp add: ulp_exp_def)

lemma nearest_minus: "nearest (- q) = - nearest q"
  by (simp add: nearest_def round_half_even_minus flip: minus_divide_left)

lemma nearest_abs_le_grid:
  assumes "\<bar>q\<bar> \<le> of_int m * 2 powi j" "ulp_exp q \<le> j"
  shows "\<bar>nearest q\<bar> \<le> of_int m * 2 powi j"
proof -
  have 1: "nearest q \<le> of_int m * 2 powi j"
    using assms by (intro nearest_le_grid) auto
  have "nearest (- q) \<le> of_int m * 2 powi j"
    using assms by (intro nearest_le_grid) auto
  then have 2: "- nearest q \<le> of_int m * 2 powi j" by (simp add: nearest_minus)
  show ?thesis using 1 2 by (simp add: abs_le_iff)
qed

lemma ulp_exp_le:
  assumes "q \<noteq> 0" "\<bar>q\<bar> \<le> 2 powi j" "- 1074 \<le> j"
  shows "ulp_exp q \<le> j"
proof -
  have "ilog2 \<bar>q\<bar> \<le> j" using assms by (intro ilog2_le) auto
  then show ?thesis using assms(3) by (simp add: ulp_exp_def)
qed

lemma round_double_finite_bound:
  assumes "\<bar>q\<bar> \<le> 2 powi j" "- 1074 \<le> j" "j \<le> 1023"
  shows "\<exists>r. round_double q = Finite r \<and> \<bar>r\<bar> \<le> 2 powi j"
proof (cases "q = 0")
  case True
  then show ?thesis by (simp add: round_double_def nearest_def)
next
  case False
  have ue: "ulp_exp q \<le> j" using False assms by (intro ulp_exp_le)
  have le: "\<bar>nearest q\<bar> \<le> 2 powi j"
    using nearest_abs_le_grid[of q 1 j] assms(1) ue by simp
  show ?thesis
  proof (cases "nearest q = 0")
    case True
    then show ?thesis by (simp add: round_double_def)
  next
    case nz: False
    have "ilog2 \<bar>nearest q\<bar> \<le> j" using nz le by (intro ilog2_le) auto
    then show ?thesis using nz le assms(3) by (simp add: round_double_def Let_def)
  qed
qed

subsection \<open>The arithmetic of readings\<close>

lemma round_double_FiniteD: "round_double q = Finite r \<Longrightarrow> r = nearest q"
  by (auto simp: round_double_def Let_def split: if_splits)

lemma round_double_within:
  assumes "\<bar>q\<bar> \<le> 2 powi j" "- 1074 \<le> j" "j \<le> 1023"
  shows "round_double q = Finite (nearest q)" and "\<bar>nearest q\<bar> \<le> 2 powi j"
proof -
  obtain r where r: "round_double q = Finite r" "\<bar>r\<bar> \<le> 2 powi j"
    using round_double_finite_bound[OF assms] by blast
  have "r = nearest q" using r(1) by (rule round_double_FiniteD)
  then show "round_double q = Finite (nearest q)" and "\<bar>nearest q\<bar> \<le> 2 powi j"
    using r by simp_all
qed

lemma two_powi_ge_1: "0 \<le> j \<Longrightarrow> (1::rat) \<le> 2 powi j"
  by (simp add: power_int_def)

lemma two_powi_mono: "i \<le> j \<Longrightarrow> (2::rat) powi i \<le> 2 powi j"
  by (intro power_int_increasing) auto

lemma two_powi_Suc: "(2::rat) powi (j + 1) = 2 * 2 powi j"
  by (simp add: power_int_add)

lemma two_powi_300: "(2::rat) powi 300 = 2 ^ 300" "(2::rat) powi (- 300) = 1 / 2 ^ 300"
  by (simp_all add: power_int_def field_simps)

lemma within_mono: "within_pow i v \<Longrightarrow> i \<le> j \<Longrightarrow> within_pow j v"
  using two_powi_mono[of i j] by (cases "(i, v)" rule: within_pow.cases) auto

lemma within_exact: "within_pow j v \<Longrightarrow> \<bar>exact v\<bar> \<le> 2 powi j"
  by (cases "(j, v)" rule: within_pow.cases) auto

lemma reading_within: "reading v \<Longrightarrow> within_pow 300 v"
proof (cases "(300::int, v)" rule: within_pow.cases)
  case (1 j n)
  assume "reading v"
  then have "\<bar>n\<bar> \<le> 2 ^ 300" using 1 by simp
  then have "(of_int \<bar>n\<bar> :: rat) \<le> of_int (2 ^ 300)" by (simp only: of_int_le_iff)
  then show ?thesis using 1 by (simp add: two_powi_300)
next
  case (2 j a)
  assume "reading v"
  then show ?thesis using 2 by (auto simp: two_powi_300)
qed auto

lemma int_to_float_within:
  assumes "\<bar>(of_int n :: rat)\<bar> \<le> 2 powi j" "0 \<le> j" "j \<le> 1023"
  shows "int_to_float n = Inr (Finite (nearest (of_int n)))"
    and "\<bar>nearest (of_int n)\<bar> \<le> 2 powi j"
  using round_double_within[of "of_int n" j] assms by (simp_all add: int_to_float_def)

lemma decimal_close: "\<bar>decimal nd a - a\<bar> \<le> 1 / 2"
proof -
  let ?p = "(10::rat) ^ nd"
  have p: "1 \<le> ?p" by simp
  have "decimal nd a - a = (of_int (round_half_even (a * ?p)) - a * ?p) / ?p"
    by (simp add: decimal_def field_simps)
  then have "\<bar>decimal nd a - a\<bar> = \<bar>of_int (round_half_even (a * ?p)) - a * ?p\<bar> / ?p"
    by simp
  also have "\<dots> \<le> (1 / 2) / ?p"
    using round_half_even_close[of "a * ?p"] p by (intro divide_right_mono) simp_all
  also have "\<dots> \<le> 1 / 2" using p by (simp add: field_simps)
  finally show ?thesis .
qed

lemma decimal_within:
  assumes "\<bar>a\<bar> \<le> 2 powi j" "0 \<le> j"
  shows "\<bar>decimal nd a\<bar> \<le> 2 powi (j + 1)"
proof -
  have "\<bar>decimal nd a\<bar> \<le> \<bar>a\<bar> + 1 / 2" using decimal_close[of nd a] by linarith
  also have "\<dots> \<le> 2 powi j + 2 powi j" using assms(1) two_powi_ge_1[OF assms(2)] by linarith
  finally show ?thesis by (simp add: two_powi_Suc)
qed

lemma float_round_within:
  assumes "\<bar>a\<bar> \<le> 2 powi j" "0 \<le> j" "j \<le> 1022"
  shows "float_round (Finite a) nd = Finite (nearest (decimal nd a))"
    and "\<bar>nearest (decimal nd a)\<bar> \<le> 2 powi (j + 1)"
  using round_double_within[of "decimal nd a" "j + 1"] decimal_within[OF assms(1,2), of nd] assms(2,3)
  by (simp_all add: decimal_def)

lemma py_round_within:
  assumes "within_pow j v" "0 \<le> j" "j \<le> 1022"
  shows "py_round v nd = Inr (rounded nd v)" and "within_pow (j + 1) (rounded nd v)"
proof -
  show "py_round v nd = Inr (rounded nd v)"
  proof (cases "(j, v)" rule: within_pow.cases)
    case (2 i a)
    then show ?thesis using float_round_within[of a j nd] assms by simp
  qed (use assms in auto)
  show "within_pow (j + 1) (rounded nd v)"
  proof (cases "(j, v)" rule: within_pow.cases)
    case (1 i n)
    then show ?thesis using within_mono[OF assms(1), of "j + 1"] by simp
  next
    case (2 i a)
    then show ?thesis using float_round_within[of a j nd] assms by simp
  qed (use assms in auto)
qed

lemma py_round_reading: "reading v \<Longrightarrow> py_round v nd = Inr (rounded nd v)"
  using py_round_within(1)[of 300 v nd] reading_within[of v] by simp

text \<open>Division by an int constant that is a float itself.\<close>

lemma py_truediv_const:
  assumes "within_pow j v" "0 \<le> j" "j \<le> 1023" "int_to_float k = Inr (Finite (of_int k))" "1 \<le> k"
  shows "py_truediv v (PInt k) = Inr (PFloat (Finite (nearest (exact v / of_int k))))"
    and "\<bar>nearest (exact v / of_int k)\<bar> \<le> 2 powi j"
proof -
  have k1: "(1::rat) \<le> of_int k" using assms(5) by simp
  have "\<bar>exact v / of_int k\<bar> = \<bar>exact v\<bar> / of_int k" using k1 by simp
  also have "\<dots> \<le> \<bar>exact v\<bar>"
  proof -
    have "1 * \<bar>exact v\<bar> \<le> of_int k * \<bar>exact v\<bar>" using k1 by (intro mult_right_mono) simp_all
    then show ?thesis using k1 by (simp add: field_simps)
  qed
  also have "\<dots> \<le> 2 powi j" using assms(1) by (rule within_exact)
  finally have b: "\<bar>exact v / of_int k\<bar> \<le> 2 powi j" .
  note rd = round_double_within[OF b _ assms(3)]
  show "\<bar>nearest (exact v / of_int k)\<bar> \<le> 2 powi j" using rd(2) assms(2) by simp
  show "py_truediv v (PInt k) = Inr (PFloat (Finite (nearest (exact v / of_int k))))"
  proof (cases "(j, v)" rule: within_pow.cases)
    case (1 i n)
    then show ?thesis using rd(1) assms(2,5) by simp
  next
    case (2 i a)
    then show ?thesis using rd(1) assms(2,4,5) by (simp add: float_truediv_def)
  qed (use assms in auto)
qed

lemma py_truediv_kilo:
  assumes "within_pow j v" "0 \<le> j" "j \<le> 1023"
  shows "py_truediv v (PInt 1000) = Inr (PFloat (Finite (kilo v)))" and "\<bar>kilo v\<bar> \<le> 2 powi j"
  using py_truediv_const[OF assms, of 1000] by (simp_all add: kilo_def int_to_float_consts)

lemma kilo_rounded_within:
  assumes "within_pow j v" "0 \<le> j" "j \<le> 1022"
  shows "bind_err (py_truediv v (PInt 1000)) (\<lambda>q. py_round q nd) = Inr (kilo_rounded nd v)"
proof -
  have "within_pow j (PFloat (Finite (kilo v)))" using py_truediv_kilo(2)[of j v] assms by simp
  then have "py_round (PFloat (Finite (kilo v))) nd = Inr (kilo_rounded nd v)"
    using py_round_within(1)[of j "PFloat (Finite (kilo v))" nd] assms
    by (simp add: kilo_rounded_def)
  then show ?thesis using py_truediv_kilo(1)[of j v] assms by simp
qed

lemma kilo_rounded_reading:
  "reading v \<Longrightarrow> bind_err (py_truediv v (PInt 1000)) (\<lambda>q. py_round q nd) = Inr (kilo_rounded nd v)"
  using kilo_rounded_within[of 300 v nd] reading_within[of v] by simp

lemma as_float_within:
  assumes "within_pow j v" "0 \<le> j" "j \<le> 1023"
  shows "\<bar>as_float v\<bar> \<le> 2 powi j"
  using assms int_to_float_within(2)[of _ j] by (cases "(j, v)" rule: within_pow.cases) auto

lemma py_mul_within:
  assumes "within_pow i v" "within_pow j w" "0 \<le> i" "0 \<le> j" "i + j \<le> 1023"
  shows "py_mul v w = Inr (product v w)" and "within_pow (i + j) (product v w)"
proof -
  have fb: "\<bar>as_float v * as_float w\<bar> \<le> 2 powi (i + j)"
  proof -
    have "\<bar>as_float v\<bar> \<le> 2 powi i" "\<bar>as_float w\<bar> \<le> 2 powi j"
      using assms by (auto intro!: as_float_within)
    then have "\<bar>as_float v\<bar> * \<bar>as_float w\<bar> \<le> 2 powi i * 2 powi j"
      by (intro mult_mono) auto
    then show ?thesis by (simp add: abs_mult power_int_add)
  qed
  note rd = round_double_within[OF fb]
  have eb: "\<bar>exact v * exact w\<bar> \<le> 2 powi (i + j)"
  proof -
    have "\<bar>exact v\<bar> \<le> 2 powi i" "\<bar>exact w\<bar> \<le> 2 powi j"
      using assms by (auto intro!: within_exact)
    then have "\<bar>exact v\<bar> * \<bar>exact w\<bar> \<le> 2 powi i * 2 powi j"
      by (intro mult_mono) auto
    then show ?thesis by (simp add: abs_mult power_int_add)
  qed
  have iv: "\<And>n. v = PInt n \<Longrightarrow> int_to_float n = Inr (Finite (nearest (of_int n)))"
    using assms int_to_float_within(1)[of _ i] by auto
  have iw: "\<And>n. w = PInt n \<Longrightarrow> int_to_float n = Inr (Finite (nearest (of_int n)))"
    using assms int_to_float_within(1)[of _ j] by auto
  show "py_mul v w = Inr (product v w)"
    using assms rd(1) iv iw
    by (cases "(i, v)" rule: within_pow.cases; cases "(j, w)" rule: within_pow.cases) auto
  show "within_pow (i + j) (product v w)"
    using assms rd(2) eb
    by (cases "(i, v)" rule: within_pow.cases; cases "(j, w)" rule: within_pow.cases) auto
qed

lemma py_sub_within:
  assumes "within_pow j v" "within_pow j w" "0 \<le> j" "j \<le> 1022"
  shows "py_sub v w = Inr (difference v w)" and "within_pow (j + 1) (difference v w)"
proof -
  have fb: "\<bar>as_float v - as_float w\<bar> \<le> 2 powi (j + 1)"
  proof -
    have "\<bar>as_float v\<bar> \<le> 2 powi j" "\<bar>as_float w\<bar> \<le> 2 powi j"
      using assms by (auto intro!: as_float_within)
    then show ?thesis by (simp add: two_powi_Suc; linarith)
  qed
  have j1: "- 1074 \<le> j + 1" "j + 1 \<le> 1023" using assms by simp_all
  note rd = round_double_within[OF fb j1]
  have eb: "\<bar>exact v - exact w\<bar> \<le> 2 powi (j + 1)"
  proof -
    have "\<bar>exact v\<bar> \<le> 2 powi j" "\<bar>exact w\<bar> \<le> 2 powi j"
      using assms by (auto intro!: within_exact)
    then show ?thesis by (simp add: two_powi_Suc; linarith)
  qed
  have iv: "\<And>n. v = PInt n \<Longrightarrow> int_to_float n = Inr (Finite (nearest (of_int n)))"
    using assms int_to_float_within(1)[of _ j] by auto
  have iw: "\<And>n. w = PInt n \<Longrightarrow> int_to_float n = Inr (Finite (nearest (of_int n)))"
    using assms int_to_float_within(1)[of _ j] by auto
  show "py_sub v w = Inr (difference v w)"
    using assms rd(1) iv iw
    by (cases "(j, v)" rule: within_pow.cases; cases "(j, w)" rule: within_pow.cases)
       (auto simp: fsub_def)
  show "within_pow (j + 1) (difference v w)"
    using assms rd(2) eb
    by (cases "(j, v)" rule: within_pow.cases; cases "(j, w)" rule: within_pow.cases) simp_all
qed

lemma py_gt_zero_within: "within_pow j v \<Longrightarrow> py_gt v (PInt 0) = Inr (0 < exact v)"
  by (cases "(j, v)" rule: within_pow.cases) (auto simp: py_gt_def)

lemma py_truthy_within: "within_pow j v \<Longrightarrow> py_truthy v = (exact v \<noteq> 0)"
  by (cases "(j, v)" rule: within_pow.cases) auto

lemma field_ok_get: "field_ok all_data f \<Longrightarrow> reading d \<Longrightarrow> reading (dict_get all_data f d)"
  by (simp add: field_ok_def dict_get_def split: option.splits)

lemma readings_get:
  "readings all_data names \<Longrightarrow> f \<in> set names \<Longrightarrow> reading d \<Longrightarrow> reading (dict_get all_data f d)"
  by (auto simp: readings_def list_all_iff intro: field_ok_get)

lemma reading_consts: "reading (PInt 0)" "reading (PInt 100)" "reading (PInt 10)" "reading (PInt 20)"
  by simp_all

lemma nearest_ge_one:
  assumes "1 \<le> q"
  shows "1 \<le> nearest q"
proof -
  have qpos: "0 < q" using assms by simp
  let ?e = "ilog2 q"
  have e0: "0 \<le> ?e" using qpos assms by (intro ilog2_ge) simp_all
  have ue: "ulp_exp q = ?e - 52" using qpos e0 by (simp add: ulp_exp_def)
  have "(2::rat) powi (52 + (?e - 52)) = 2 powi 52 * 2 powi (?e - 52)"
    by (subst power_int_add) simp_all
  then have "(2::rat) powi ?e = 2 ^ 52 * 2 powi (?e - 52)" by simp
  then have g: "of_int (- (2 ^ 52)) * 2 powi (?e - 52) = - ((2::rat) powi ?e)"
    by simp
  have "- q \<le> of_int (- (2 ^ 52)) * 2 powi (?e - 52)"
    unfolding g using ilog2_lower[OF qpos] by simp
  then have "nearest (- q) \<le> of_int (- (2 ^ 52)) * 2 powi (?e - 52)"
    by (rule nearest_le_grid) (simp add: ue)
  then have "2 powi ?e \<le> nearest q" unfolding g by (simp add: nearest_minus)
  then show ?thesis using two_powi_ge_1[OF e0] by linarith
qed

lemma as_float_divisor:
  assumes "reading c" "0 < exact c"
  shows "2 powi (- 300) \<le> as_float c"
proof (cases "(300::int, c)" rule: within_pow.cases)
  case (1 j n)
  then have "1 \<le> n" using assms(2) by simp
  then have "(1::rat) \<le> of_int n" by simp
  then have "1 \<le> nearest (of_int n)" by (rule nearest_ge_one)
  moreover have "(2::rat) powi (- 300) \<le> 1" by (simp add: two_powi_300)
  ultimately show ?thesis using 1 by simp
next
  case (2 j a)
  then show ?thesis using assms by (auto simp: two_powi_300)
qed (use assms in auto)

lemma py_truediv_quotient:
  assumes "within_pow i s" "reading c" "0 < exact c" "0 \<le> i" "i \<le> 700"
  shows "py_truediv s c = Inr (PFloat (Finite (quotient s c)))"
    and "\<bar>quotient s c\<bar> \<le> 2 powi (i + 300)"
proof -
  have mono: "(2::rat) powi i \<le> 2 powi (i + 300)" by (rule two_powi_mono) simp
  have j: "- 1074 \<le> i + 300" "i + 300 \<le> 1023" using assms(4,5) by simp_all
  have cw: "within_pow 300 c" using assms(2) by (rule reading_within)
  have lo: "2 powi (- 300) \<le> as_float c" using assms(2,3) by (rule as_float_divisor)
  have "(0::rat) < 2 powi (- 300)" by simp
  then have cpos: "0 < as_float c" using lo by linarith
  have sb: "\<bar>as_float s\<bar> \<le> 2 powi i" using assms(1,4,5) by (intro as_float_within) simp_all
  have fb: "\<bar>as_float s / as_float c\<bar> \<le> 2 powi (i + 300)"
  proof -
    have "\<bar>as_float s / as_float c\<bar> = \<bar>as_float s\<bar> / as_float c" using cpos by simp
    also have "\<dots> \<le> 2 powi i / as_float c" using sb cpos by (intro divide_right_mono) simp_all
    also have "\<dots> \<le> 2 powi i / 2 powi (- 300)" using lo by (intro divide_left_mono) simp_all
    also have "\<dots> = 2 powi (i + 300)" by (simp add: power_int_add power_int_minus field_simps)
    finally show ?thesis .
  qed
  note rf = round_double_within[OF fb j]
  have cases_c: "(\<exists>b. c = PInt b) \<or> (\<exists>y. c = PFloat (Finite y))"
    using assms(2) by (cases "(300::int, c)" rule: within_pow.cases) auto
  have cases_s: "(\<exists>a. s = PInt a) \<or> (\<exists>x. s = PFloat (Finite x))"
    using assms(1) by (cases "(i, s)" rule: within_pow.cases) auto
  have float_case: "py_truediv s c = Inr (PFloat (Finite (quotient s c))) \<and>
      \<bar>quotient s c\<bar> \<le> 2 powi (i + 300)"
    if q: "quotient s c = nearest (as_float s / as_float c)"
      and d: "py_truediv s c = float_truediv (Finite (as_float s)) (Finite (as_float c))"
  proof -
    have "float_truediv (Finite (as_float s)) (Finite (as_float c))
        = Inr (PFloat (Finite (nearest (as_float s / as_float c))))"
      using rf(1) cpos by (simp add: float_truediv_def)
    then show ?thesis using rf(2) q d by simp
  qed
  have both: "py_truediv s c = Inr (PFloat (Finite (quotient s c))) \<and>
      \<bar>quotient s c\<bar> \<le> 2 powi (i + 300)"
  proof -
    consider a b where "s = PInt a" "c = PInt b"
      | a y where "s = PInt a" "c = PFloat (Finite y)"
      | x b where "s = PFloat (Finite x)" "c = PInt b"
      | x y where "s = PFloat (Finite x)" "c = PFloat (Finite y)"
      using cases_c cases_s by blast
    then show ?thesis
    proof cases
      case 1
      have b1: "(1::rat) \<le> of_int b" using assms(3) 1 by simp
      have "\<bar>(of_int a :: rat) / of_int b\<bar> = \<bar>of_int a\<bar> / of_int b" using b1 by simp
      also have "\<dots> \<le> \<bar>of_int a\<bar>"
      proof -
        have "1 * \<bar>(of_int a :: rat)\<bar> \<le> of_int b * \<bar>of_int a\<bar>"
          using b1 by (intro mult_right_mono) simp_all
        then show ?thesis using b1 by (simp add: field_simps)
      qed
      also have "\<dots> \<le> 2 powi i" using assms(1) 1 by simp
      finally have "\<bar>(of_int a :: rat) / of_int b\<bar> \<le> 2 powi (i + 300)" using mono by simp
      note ri = round_double_within[OF this j]
      show ?thesis using ri 1 assms(3) by simp
    next
      case 2
      have "int_to_float a = Inr (Finite (nearest (of_int a)))"
        using int_to_float_within(1)[of a i] assms(1,4,5) 2 by simp
      then show ?thesis using 2 by (intro float_case) simp_all
    next
      case 3
      have "int_to_float b = Inr (Finite (nearest (of_int b)))"
        using int_to_float_within(1)[of b 300] cw 3 by simp
      then show ?thesis using 3 by (intro float_case) simp_all
    next
      case 4
      then show ?thesis by (intro float_case) simp_all
    qed
  qed
  show "py_truediv s c = Inr (PFloat (Finite (quotient s c)))"
    and "\<bar>quotient s c\<bar> \<le> 2 powi (i + 300)"
    using both by simp_all
qed

lemma nearest_100: "nearest 100 = 100"
proof -
  have "round_double 100 = Finite 100"
    using int_to_float_consts(2) by (simp add: int_to_float_def split: pyfloat.splits)
  then show ?thesis using round_double_FiniteD by fastforce
qed

lemma py_mul_100:
  assumes "\<bar>q\<bar> \<le> 2 powi j" "0 \<le> j" "j \<le> 1016"
  shows "py_mul (PFloat (Finite q)) (PInt 100) = Inr (PFloat (Finite (nearest (q * 100))))"
    and "\<bar>nearest (q * 100)\<bar> \<le> 2 powi (j + 7)"
proof -
  have w: "within_pow j (PFloat (Finite q))" "within_pow 7 (PInt 100)"
    using assms(1) by (simp_all add: power_int_def)
  show "py_mul (PFloat (Finite q)) (PInt 100) = Inr (PFloat (Finite (nearest (q * 100))))"
    using py_mul_within(1)[OF w] assms(2,3) by (simp add: nearest_100)
  show "\<bar>nearest (q * 100)\<bar> \<le> 2 powi (j + 7)"
    using py_mul_within(2)[OF w] assms(2,3) by (simp add: nearest_100)
qed

lemma py_round_finite:
  assumes "\<bar>a\<bar> \<le> 2 powi j" "0 \<le> j" "j \<le> 1022"
  shows "py_round (PFloat (Finite a)) nd = Inr (PFloat (Finite (nearest (decimal nd a))))"
  using py_round_within(1)[of j "PFloat (Finite a)" nd] assms by simp

lemma py_round_kilo:
  "reading v \<Longrightarrow> py_round (PFloat (Finite (kilo v))) nd = Inr (kilo_rounded nd v)"
  using py_truediv_kilo(2)[of 300 v] reading_within[of v] py_round_finite[of "kilo v" 300 nd]
  by (simp add: kilo_rounded_def)

lemma py_truediv_kilo_reading:
  "reading v \<Longrightarrow> py_truediv v (PInt 1000) = Inr (PFloat (Finite (kilo v)))"
  using py_truediv_kilo(1)[of 300 v] reading_within[of v] by simp

lemma clamp_chain:
  "bind_err (py_min (PInt 100) (PFloat (Finite r))) (\<lambda>a. py_max (PInt 0) a) = Inr (clamp_percent r)"
  by (auto simp: py_min_def py_max_def py_gt_def clamp_percent_def)

lemma py_min_100: "py_min (PInt 100) (PFloat (Finite r)) = Inr (if r < 100 then PFloat (Finite r) else PInt 100)"
  by (simp add: py_min_def)

lemma py_max_clamp:
  "py_max (PInt 0) (if r < 100 then PFloat (Finite r) else PInt 100) = Inr (clamp_percent r)"
  by (auto simp: py_max_def py_gt_def clamp_percent_def)

lemma in_percent_range_clamp: "in_percent_range (clamp_percent r)"
  by (simp add: clamp_percent_def)

subsection \<open>The views on readings\<close>

lemma map_of_build:
  "build_dict (map (\<lambda>(k, v). (k, Inr v)) kvs) = Inr kvs"
  by (induction kvs) auto

lemma power_view_returns:
  assumes "readings all_data (map snd power_fields)"
  shows "get_power_comprehensive all_data = Inr (map (power_entry all_data) power_fields)"
proof -
  have ok: "reading (dict_get all_data f (PInt 0))" if "f \<in> set (map snd power_fields)" for f
    using assms that by (rule readings_get) simp
  have k: "bind_err (py_truediv (dict_get all_data f (PInt 0)) (PInt 1000)) (\<lambda>q. py_round q 3)
      = Inr (kilo_rounded 3 (dict_get all_data f (PInt 0)))" if "f \<in> set (map snd power_fields)" for f
    using ok[OF that] by (rule kilo_rounded_reading)
  have r: "py_round (dict_get all_data ''Power.Factor'' (PInt 0)) 3
      = Inr (rounded 3 (dict_get all_data ''Power.Factor'' (PInt 0)))"
    by (rule py_round_reading, rule ok) (simp add: power_fields_def)
  show ?thesis
    unfolding get_power_comprehensive_def
    by (simp add: r k power_fields_def power_entry_def)
qed

lemma energy_flow_returns:
  assumes "readings all_data (map snd energy_flow_fields)"
  shows "get_energy_flow_data all_data
    = Inr (map (\<lambda>(key, field). (key, kilo_rounded 2 (dict_get all_data field (PInt 0))))
             energy_flow_fields)"
proof -
  have ok: "reading (dict_get all_data f (PInt 0))" if "f \<in> set (map snd energy_flow_fields)" for f
    using assms that by (rule readings_get) simp
  have d: "py_truediv (dict_get all_data f (PInt 0)) (PInt 1000)
      = Inr (PFloat (Finite (kilo (dict_get all_data f (PInt 0)))))"
    if "f \<in> set (map snd energy_flow_fields)" for f
    using ok[OF that] by (rule py_truediv_kilo_reading)
  have r: "py_round (PFloat (Finite (kilo (dict_get all_data f (PInt 0))))) 2
      = Inr (kilo_rounded 2 (dict_get all_data f (PInt 0)))"
    if "f \<in> set (map snd energy_flow_fields)" for f
    using ok[OF that] by (rule py_round_kilo)
  show ?thesis
    unfolding get_energy_flow_data_def
    by (simp add: d r energy_flow_fields_def del: py_round.simps)
qed

lemma round_double_unit:
  assumes "0 \<le> q" "q \<le> 1"
  shows "\<exists>r. round_double q = Finite r \<and> 0 \<le> r \<and> r \<le> 1"
  using round_double_bounded[of q 1] assms by simp

lemma round_double_percent:
  assumes "0 \<le> q" "q \<le> 100"
  shows "\<exists>r. round_double q = Finite r \<and> 0 \<le> r \<and> r \<le> 100"
  using round_double_bounded[of q 100] assms by simp

lemma float_round_percent:
  assumes "0 \<le> s" "s \<le> 100"
  shows "\<exists>t. float_round (Finite s) 1 = Finite t \<and> 0 \<le> t \<and> t \<le> 100"
proof -
  have "s * 10 \<le> of_int 1000" using assms by simp
  then have "round_half_even (s * 10) \<le> 1000" by (rule round_half_even_le)
  then have "(of_int (round_half_even (s * 10)) :: rat) \<le> of_int 1000"
    by (simp only: of_int_le_iff)
  then have hi: "(of_int (round_half_even (s * 10)) :: rat) / 10 \<le> 100" by simp
  have "0 \<le> round_half_even (s * 10)" using assms by (intro round_half_even_nonneg) simp
  then have lo: "0 \<le> (of_int (round_half_even (s * 10)) :: rat) / 10" by simp
  show ?thesis using round_double_percent[OF lo hi] by simp
qed

text \<open>The balance of two positive string powers, step by step.\<close>

lemma balance_positive:
  assumes "0 < a" "0 < b"
  defines "t \<equiv> nearest (decimal 1 (nearest (nearest (min a b / max a b) * 100)))"
  shows "bind_err (py_min (PFloat (Finite a)) (PFloat (Finite b))) (\<lambda>lo.
            bind_err (py_max (PFloat (Finite a)) (PFloat (Finite b))) (\<lambda>hi.
            bind_err (py_truediv lo hi) (\<lambda>q.
            bind_err (py_mul q (PInt 100)) (\<lambda>p. py_round p 1)))) = Inr (PFloat (Finite t))"
    and "0 \<le> t" and "t \<le> 100"
proof -
  let ?lo = "min a b" and ?hi = "max a b"
  have mn: "py_min (PFloat (Finite a)) (PFloat (Finite b)) = Inr (PFloat (Finite ?lo))"
    by (simp add: py_min_def min_def)
  have mx: "py_max (PFloat (Finite a)) (PFloat (Finite b)) = Inr (PFloat (Finite ?hi))"
    by (simp add: py_max_def py_gt_def max_def)
  have hpos: "0 < ?hi" and lpos: "0 < ?lo" using assms by simp_all
  have "0 \<le> ?lo / ?hi" "?lo / ?hi \<le> 1" using hpos lpos by simp_all
  then obtain r where r: "round_double (?lo / ?hi) = Finite r" "0 \<le> r" "r \<le> 1"
    using round_double_unit by blast
  have r_eq: "r = nearest (?lo / ?hi)" using r(1) by (rule round_double_FiniteD)
  have dv: "py_truediv (PFloat (Finite ?lo)) (PFloat (Finite ?hi)) = Inr (PFloat (Finite r))"
    using hpos r(1) by (simp add: float_truediv_def)
  have "0 \<le> r * 100" "r * 100 \<le> 100" using r by simp_all
  then obtain s where s: "round_double (r * 100) = Finite s" "0 \<le> s" "s \<le> 100"
    using round_double_percent by blast
  have s_eq: "s = nearest (r * 100)" using s(1) by (rule round_double_FiniteD)
  have ml: "py_mul (PFloat (Finite r)) (PInt 100) = Inr (PFloat (Finite s))"
    using s(1) by (simp add: int_to_float_consts)
  obtain u where u: "float_round (Finite s) 1 = Finite u" "0 \<le> u" "u \<le> 100"
    using float_round_percent[OF s(2,3)] by blast
  have "round_double (decimal 1 s) = Finite u" using u(1) by (simp add: decimal_def)
  then have "u = nearest (decimal 1 s)" by (rule round_double_FiniteD)
  then have u_eq: "u = t" by (simp add: t_def s_eq r_eq)
  have rd: "py_round (PFloat (Finite s)) 1 = Inr (PFloat (Finite u))"
    using u(1) by simp
  show "bind_err (py_min (PFloat (Finite a)) (PFloat (Finite b))) (\<lambda>lo.
            bind_err (py_max (PFloat (Finite a)) (PFloat (Finite b))) (\<lambda>hi.
            bind_err (py_truediv lo hi) (\<lambda>q.
            bind_err (py_mul q (PInt 100)) (\<lambda>p. py_round p 1)))) = Inr (PFloat (Finite t))"
    by (simp only: mn mx dv ml rd bind_err_simps u_eq)
  show "0 \<le> t" "t \<le> 100" using u(2,3) u_eq by simp_all
qed

lemma in_percent_range_balance: "in_percent_range (string_balance w1 w2)"
  using balance_positive(2,3)[of "kilo w1" "kilo w2"]
  by (simp add: string_balance_def Let_def)

lemma string_view_returns:
  assumes "readings all_data string_view_sources"
  shows "get_string_data all_data = Inr [
      (''string1_power'', kilo_rounded 2 (dict_get all_data ''Power.DC.String.1'' (PInt 0))),
      (''string2_power'', kilo_rounded 2 (dict_get all_data ''Power.DC.String.2'' (PInt 0))),
      (''string1_voltage'', rounded 1 (dict_get all_data ''Voltage.String.1'' (PInt 0))),
      (''string2_voltage'', rounded 1 (dict_get all_data ''Voltage.String.2'' (PInt 0))),
      (''string1_current'', rounded 1 (dict_get all_data ''Current.String.1'' (PInt 0))),
      (''string2_current'', rounded 1 (dict_get all_data ''Current.String.2'' (PInt 0))),
      (''balance_percentage'', string_balance (dict_get all_data ''Power.DC.String.1'' (PInt 0))
                                               (dict_get all_data ''Power.DC.String.2'' (PInt 0)))]"
proof -
  let ?w1 = "dict_get all_data ''Power.DC.String.1'' (PInt 0)"
  let ?w2 = "dict_get all_data ''Power.DC.String.2'' (PInt 0)"
  have ok: "reading (dict_get all_data f (PInt 0))" if "f \<in> set string_view_sources" for f
    using assms that by (rule readings_get) simp
  have w: "reading ?w1" "reading ?w2" by (rule ok, simp add: string_view_sources_def)+
  have d: "py_truediv ?w1 (PInt 1000) = Inr (PFloat (Finite (kilo ?w1)))"
          "py_truediv ?w2 (PInt 1000) = Inr (PFloat (Finite (kilo ?w2)))"
    using w by (simp_all add: py_truediv_kilo_reading)
  have r: "py_round (PFloat (Finite (kilo ?w1))) 2 = Inr (kilo_rounded 2 ?w1)"
          "py_round (PFloat (Finite (kilo ?w2))) 2 = Inr (kilo_rounded 2 ?w2)"
    using w by (simp_all add: py_round_kilo del: py_round.simps)
  have v:
    "py_round (dict_get all_data ''Voltage.String.1'' (PInt 0)) 1
       = Inr (rounded 1 (dict_get all_data ''Voltage.String.1'' (PInt 0)))"
    "py_round (dict_get all_data ''Voltage.String.2'' (PInt 0)) 1
       = Inr (rounded 1 (dict_get all_data ''Voltage.String.2'' (PInt 0)))"
    "py_round (dict_get all_data ''Current.String.1'' (PInt 0)) 1
       = Inr (rounded 1 (dict_get all_data ''Current.String.1'' (PInt 0)))"
    "py_round (dict_get all_data ''Current.String.2'' (PInt 0)) 1
       = Inr (rounded 1 (dict_get all_data ''Current.String.2'' (PInt 0)))"
    by (rule py_round_reading, rule ok, simp add: string_view_sources_def)+
  have g: "py_gt (PFloat (Finite (kilo ?w1))) (PInt 0) = Inr (0 < kilo ?w1)"
          "py_gt (PFloat (Finite (kilo ?w2))) (PInt 0) = Inr (0 < kilo ?w2)"
    by (simp_all add: py_gt_def)
  have bal: "bind_err (py_gt (PFloat (Finite (kilo ?w1))) (PInt 0)) (\<lambda>pos1.
        bind_err (if pos1 then py_gt (PFloat (Finite (kilo ?w2))) (PInt 0) else Inr False) (\<lambda>both.
          if both then
            bind_err (py_min (PFloat (Finite (kilo ?w1))) (PFloat (Finite (kilo ?w2)))) (\<lambda>lo.
            bind_err (py_max (PFloat (Finite (kilo ?w1))) (PFloat (Finite (kilo ?w2)))) (\<lambda>hi.
            bind_err (py_truediv lo hi) (\<lambda>q.
            bind_err (py_mul q (PInt 100)) (\<lambda>p. py_round p 1))))
          else Inr (PInt 100))) = Inr (string_balance ?w1 ?w2)"
  proof (cases "0 < kilo ?w1 \<and> 0 < kilo ?w2")
    case True
    then show ?thesis
      using balance_positive(1)[of "kilo ?w1" "kilo ?w2"]
      by (simp add: g string_balance_def Let_def)
  next
    case False
    then show ?thesis by (auto simp: g string_balance_def Let_def)
  qed
  show ?thesis
    unfolding get_string_data_def Let_def d bind_err_simps bal r v build_dict.simps
    by (rule refl)
qed

lemma py_max_zero_within:
  "within_pow j d \<Longrightarrow> py_max (PInt 0) d = Inr (if 0 < exact d then d else PInt 0)"
  by (cases "(j, d)" rule: within_pow.cases) (auto simp: py_max_def py_gt_def)

lemma daily_returns:
  assumes "readings all_data daily_sources"
  shows "get_daily_summary all_data = Inr [
      (''production_today'', rounded 2 (dict_get all_data ''Energy.Production.Total.Day'' (PInt 0))),
      (''consumption_today'', rounded 2 (dict_get all_data ''Energy.Consumption.Total.Day'' (PInt 0))),
      (''grid_export_today'', net_export (dict_get all_data ''Energy.Grid.Export.Day'' (PInt 0))
                                         (dict_get all_data ''Energy.Grid.Import.Day'' (PInt 0))),
      (''autarky_rate'', autarky_rate (dict_get all_data ''Energy.Production.Total.Day'' (PInt 0))
                                      (dict_get all_data ''Energy.Grid.Export.Day'' (PInt 0))
                                      (dict_get all_data ''Energy.Consumption.Total.Day'' (PInt 0)))]"
proof -
  let ?p = "dict_get all_data ''Energy.Production.Total.Day'' (PInt 0)"
  let ?c = "dict_get all_data ''Energy.Consumption.Total.Day'' (PInt 0)"
  let ?e = "dict_get all_data ''Energy.Grid.Export.Day'' (PInt 0)"
  let ?i = "dict_get all_data ''Energy.Grid.Import.Day'' (PInt 0)"
  have ok: "reading (dict_get all_data f (PInt 0))" if "f \<in> set daily_sources" for f
    using assms that by (rule readings_get) simp
  have rd: "reading ?p" "reading ?c" "reading ?e" "reading ?i"
    by (rule ok, simp add: daily_sources_def)+
  note w = rd[THEN reading_within]
  have s1: "py_sub ?e ?i = Inr (difference ?e ?i)" and w1: "within_pow 301 (difference ?e ?i)"
    using py_sub_within[OF w(3) w(4)] by simp_all
  have s2: "py_sub ?p ?e = Inr (difference ?p ?e)" and w2: "within_pow 301 (difference ?p ?e)"
    using py_sub_within[OF w(1) w(3)] by simp_all
  have gt: "py_gt ?c (PInt 0) = Inr (0 < exact ?c)" using w(2) by (rule py_gt_zero_within)
  have r2: "py_round ?p 2 = Inr (rounded 2 ?p)" "py_round ?c 2 = Inr (rounded 2 ?c)"
    using rd by (simp_all add: py_round_reading)
  have mx: "py_max (PInt 0) (difference ?e ?i)
      = Inr (if 0 < exact (difference ?e ?i) then difference ?e ?i else PInt 0)"
    using w1 by (rule py_max_zero_within)
  have "within_pow 301 (if 0 < exact (difference ?e ?i) then difference ?e ?i else PInt 0)"
    using w1 by (simp add: power_int_def)
  then have nr: "py_round (if 0 < exact (difference ?e ?i) then difference ?e ?i else PInt 0) 2
      = Inr (net_export ?e ?i)"
    using py_round_within(1)[of 301] by (simp add: net_export_def Let_def)
  have grid: "bind_err (py_max (PInt 0) (difference ?e ?i)) (\<lambda>m. py_round m 2)
      = Inr (net_export ?e ?i)"
    by (simp only: mx bind_err_simps nr)
  define r where "r = nearest (decimal 1 (nearest (quotient (difference ?p ?e) ?c * 100)))"
  define a where "a = (if 0 < exact ?c
      then (if r < 100 then PFloat (Finite r) else PInt 100) else PInt 0)"
  have inner: "bind_err (py_gt ?c (PInt 0)) (\<lambda>positive.
          if positive then
            bind_err (py_sub ?p ?e) (\<lambda>self_consumption.
            bind_err (py_truediv self_consumption ?c) (\<lambda>q.
            bind_err (py_mul q (PInt 100)) (\<lambda>p.
            bind_err (py_round p 1) (\<lambda>r. py_min (PInt 100) r))))
          else Inr (PInt 0)) = Inr a"
  proof (cases "0 < exact ?c")
    case True
    let ?q = "quotient (difference ?p ?e) ?c"
    have dv: "py_truediv (difference ?p ?e) ?c = Inr (PFloat (Finite ?q))"
      and qb: "\<bar>?q\<bar> \<le> 2 powi 601"
      using py_truediv_quotient[OF w2 rd(2) True] by simp_all
    have ml: "py_mul (PFloat (Finite ?q)) (PInt 100) = Inr (PFloat (Finite (nearest (?q * 100))))"
      and mb: "\<bar>nearest (?q * 100)\<bar> \<le> 2 powi 608"
      using py_mul_100[OF qb] by simp_all
    have ro: "py_round (PFloat (Finite (nearest (?q * 100)))) 1 = Inr (PFloat (Finite r))"
      unfolding r_def by (rule py_round_finite[OF mb]) simp_all
    show ?thesis
      using True
      by (simp only: gt s2 dv ml ro bind_err_simps if_True py_min_100 a_def)
  next
    case False
    then show ?thesis by (simp only: gt bind_err_simps if_False a_def)
  qed
  have mxa: "py_max (PInt 0) a = Inr (autarky_rate ?p ?e ?c)"
  proof (cases "0 < exact ?c")
    case True
    then show ?thesis
      using py_max_clamp[of r] by (simp only: a_def if_True autarky_rate_def r_def)
  next
    case False
    have "py_max (PInt 0) (PInt 0) = Inr (PInt 0)" by (simp add: py_max_def py_gt_def)
    then show ?thesis using False by (simp only: a_def if_False autarky_rate_def)
  qed
  show ?thesis
    unfolding get_daily_summary_def Let_def s1 bind_err_simps inner grid mxa r2 build_dict.simps
    by (rule refl)
qed

lemma battery_view_returns:
  assumes "readings all_data battery_view_sources"
  shows "get_battery_comprehensive all_data = Inr [
      (''soc_percent'', rounded 1 (dict_get all_data ''Energy.Battery.Charge.Level'' (PInt 0))),
      (''soh_percent'', rounded 1 (dict_get all_data ''Battery.SOH'' (PInt 100))),
      (''charge_level_max'', dict_get all_data ''Battery.ChargeLevel.Max'' (PInt 100)),
      (''charge_level_min'', dict_get all_data ''Battery.ChargeLevel.Min'' (PInt 10)),
      (''charge_level_min_on_grid'', dict_get all_data ''Battery.ChargeLevel.MinOnGrid'' (PInt 10)),
      (''voltage'', rounded 1 (dict_get all_data ''Voltage.Battery'' (PInt 0))),
      (''current'', rounded 2 (dict_get all_data ''Current.Battery'' (PInt 0))),
      (''capacity_ah'', rounded 1 (dict_get all_data ''Energy.Battery.Ah'' (PInt 0))),
      (''power_kw'', power_kw (dict_get all_data ''Voltage.Battery'' (PInt 0))
                               (dict_get all_data ''Current.Battery'' (PInt 0))),
      (''capacity_kwh'',
         if exact (dict_get all_data ''Energy.Battery.Ah'' (PInt 0)) \<noteq> 0
            \<and> exact (dict_get all_data ''Voltage.Battery'' (PInt 0)) \<noteq> 0
         then kilo_rounded 1 (product (dict_get all_data ''Energy.Battery.Ah'' (PInt 0))
                                      (dict_get all_data ''Voltage.Battery'' (PInt 0)))
         else PInt 0),
      (''available_kwh'',
         if exact (dict_get all_data ''Energy.Battery.Charge.Level'' (PInt 0)) \<noteq> 0
            \<and> exact (dict_get all_data ''Energy.Battery.Ah'' (PInt 0)) \<noteq> 0
            \<and> exact (dict_get all_data ''Voltage.Battery'' (PInt 0)) \<noteq> 0
         then PFloat (Finite (nearest (decimal 1 (nearest (exact
                (product (product (dict_get all_data ''Energy.Battery.Charge.Level'' (PInt 0))
                                  (dict_get all_data ''Energy.Battery.Ah'' (PInt 0)))
                         (dict_get all_data ''Voltage.Battery'' (PInt 0))) / 100000)))))
         else PInt 0),
      (''temperature'', rounded 1 (dict_get all_data ''Temperature.Battery'' (PInt 0))),
      (''charged_today_kwh'', rounded 2 (dict_get all_data ''Energy.Battery.Charge.Day'' (PInt 0))),
      (''discharged_today_kwh'',
         rounded 2 (dict_get all_data ''Energy.Battery.Discharge.Day'' (PInt 0))),
      (''charged_lifetime_mwh'',
         rounded 1 (dict_get all_data ''Energy.Battery.Charge.Lifetime'' (PInt 0))),
      (''discharged_lifetime_mwh'',
         rounded 1 (dict_get all_data ''Energy.Battery.Discharge.Lifetime'' (PInt 0)))]"
proof -
  let ?soc = "dict_get all_data ''Energy.Battery.Charge.Level'' (PInt 0)"
  let ?v = "dict_get all_data ''Voltage.Battery'' (PInt 0)"
  let ?c = "dict_get all_data ''Current.Battery'' (PInt 0)"
  let ?cap = "dict_get all_data ''Energy.Battery.Ah'' (PInt 0)"
  let ?soh = "dict_get all_data ''Battery.SOH'' (PInt 100)"
  have ok: "reading (dict_get all_data f d)" if "f \<in> set battery_view_sources" "reading d" for f d
    using assms that by (rule readings_get)
  have rd: "reading ?soc" "reading ?v" "reading ?c" "reading ?cap" "reading ?soh"
    by (rule ok, simp add: battery_view_sources_def, simp)+
  note w = rd[THEN reading_within]
  have r1: "py_round ?soc 1 = Inr (rounded 1 ?soc)" "py_round ?soh 1 = Inr (rounded 1 ?soh)"
      "py_round ?v 1 = Inr (rounded 1 ?v)" "py_round ?c 2 = Inr (rounded 2 ?c)"
      "py_round ?cap 1 = Inr (rounded 1 ?cap)"
    using rd by (simp_all add: py_round_reading)
  have r2:
    "py_round (dict_get all_data ''Temperature.Battery'' (PInt 0)) 1
       = Inr (rounded 1 (dict_get all_data ''Temperature.Battery'' (PInt 0)))"
    "py_round (dict_get all_data ''Energy.Battery.Charge.Day'' (PInt 0)) 2
       = Inr (rounded 2 (dict_get all_data ''Energy.Battery.Charge.Day'' (PInt 0)))"
    "py_round (dict_get all_data ''Energy.Battery.Discharge.Day'' (PInt 0)) 2
       = Inr (rounded 2 (dict_get all_data ''Energy.Battery.Discharge.Day'' (PInt 0)))"
    "py_round (dict_get all_data ''Energy.Battery.Charge.Lifetime'' (PInt 0)) 1
       = Inr (rounded 1 (dict_get all_data ''Energy.Battery.Charge.Lifetime'' (PInt 0)))"
    "py_round (dict_get all_data ''Energy.Battery.Discharge.Lifetime'' (PInt 0)) 1
       = Inr (rounded 1 (dict_get all_data ''Energy.Battery.Discharge.Lifetime'' (PInt 0)))"
    by (rule py_round_reading, rule ok, simp add: battery_view_sources_def, simp)+
  have tr: "py_truthy ?soc = (exact ?soc \<noteq> 0)" "py_truthy ?v = (exact ?v \<noteq> 0)"
      "py_truthy ?c = (exact ?c \<noteq> 0)" "py_truthy ?cap = (exact ?cap \<noteq> 0)"
    using w by (simp_all add: py_truthy_within)
  have chain: "bind_err (py_mul x y) (\<lambda>xy.
      bind_err (py_truediv xy (PInt 1000)) (\<lambda>q. py_round q nd)) = Inr (kilo_rounded nd (product x y))"
    if "within_pow 300 x" "within_pow 300 y" for x y nd
  proof -
    have m: "py_mul x y = Inr (product x y)" and mw: "within_pow 600 (product x y)"
      using py_mul_within[OF that] by simp_all
    show ?thesis using kilo_rounded_within[OF mw] by (simp only: m bind_err_simps)
  qed
  have pk: "(if py_truthy ?v \<and> py_truthy ?c then
             bind_err (py_mul ?v ?c) (\<lambda>vc.
             bind_err (py_truediv vc (PInt 1000)) (\<lambda>q. py_round q 3))
           else Inr (PInt 0)) = Inr (power_kw ?v ?c)"
    by (simp only: chain[OF w(2) w(3)] tr power_kw_def if_distrib[of Inr, symmetric])
  have ck: "(if py_truthy ?cap \<and> py_truthy ?v then
             bind_err (py_mul ?cap ?v) (\<lambda>cv.
             bind_err (py_truediv cv (PInt 1000)) (\<lambda>q. py_round q 1))
           else Inr (PInt 0))
      = Inr (if exact ?cap \<noteq> 0 \<and> exact ?v \<noteq> 0 then kilo_rounded 1 (product ?cap ?v) else PInt 0)"
    by (simp only: chain[OF w(4) w(2)] tr if_distrib[of Inr, symmetric])
  have av_chain: "bind_err (py_mul ?soc ?cap) (\<lambda>sc.
             bind_err (py_mul sc ?v) (\<lambda>scv.
             bind_err (py_truediv scv (PInt 100000)) (\<lambda>q. py_round q 1)))
      = Inr (PFloat (Finite (nearest (decimal 1 (nearest (exact
                (product (product ?soc ?cap) ?v) / 100000))))))"
  proof -
    have m1: "py_mul ?soc ?cap = Inr (product ?soc ?cap)"
      and w1: "within_pow 600 (product ?soc ?cap)"
      using py_mul_within[OF w(1) w(4)] by simp_all
    have m2: "py_mul (product ?soc ?cap) ?v = Inr (product (product ?soc ?cap) ?v)"
      and w2: "within_pow 900 (product (product ?soc ?cap) ?v)"
      using py_mul_within[OF w1 w(2)] by simp_all
    have dv: "py_truediv (product (product ?soc ?cap) ?v) (PInt 100000)
        = Inr (PFloat (Finite (nearest (exact (product (product ?soc ?cap) ?v) / 100000))))"
      and db: "\<bar>nearest (exact (product (product ?soc ?cap) ?v) / 100000)\<bar> \<le> 2 powi 900"
      using py_truediv_const[OF w2, of 100000] by (simp_all add: int_to_float_consts)
    have ro: "py_round (PFloat (Finite (nearest (exact (product (product ?soc ?cap) ?v) / 100000)))) 1
        = Inr (PFloat (Finite (nearest (decimal 1 (nearest (exact
                (product (product ?soc ?cap) ?v) / 100000))))))"
      by (rule py_round_finite[OF db]) simp_all
    show ?thesis by (simp only: m1 m2 dv ro bind_err_simps)
  qed
  have av: "(if list_all py_truthy [?soc, ?cap, ?v] then
             bind_err (py_mul ?soc ?cap) (\<lambda>sc.
             bind_err (py_mul sc ?v) (\<lambda>scv.
             bind_err (py_truediv scv (PInt 100000)) (\<lambda>q. py_round q 1)))
           else Inr (PInt 0))
      = Inr (if exact ?soc \<noteq> 0 \<and> exact ?cap \<noteq> 0 \<and> exact ?v \<noteq> 0
             then PFloat (Finite (nearest (decimal 1 (nearest (exact
                (product (product ?soc ?cap) ?v) / 100000)))))
             else PInt 0)"
    by (simp only: av_chain tr list.pred_inject simp_thms if_distrib[of Inr, symmetric])
  show ?thesis
    unfolding get_battery_comprehensive_def Let_def pk ck av r1 r2 build_dict.simps bind_err_simps
    by (rule refl)
qed

subsection \<open>Sample values\<close>

lemma kilo_samples:
  "kilo_rounded 3 (PInt 1500) = PFloat (Finite (3 / 2))"
  "kilo_rounded 3 (PFloat (Finite 1500)) = PFloat (Finite (3 / 2))"
  "kilo_rounded 2 (PInt 1500) = PFloat (Finite (3 / 2))"
  "kilo_rounded 3 (PInt 2000) = PFloat (Finite 2)"
  "kilo_rounded 3 (PFloat (Finite (4939 / 4)))
     = PFloat (Finite (5561945539802563 / 4503599627370496))"
  "kilo_rounded 2 (PFloat (Finite (4939 / 4)))
     = PFloat (Finite (2769713770832855 / 2251799813685248))"
  "kilo_rounded 3 (PInt 0) = PFloat (Finite 0)"
  "kilo_rounded 2 (PInt 0) = PFloat (Finite 0)"
  by code_simp+

lemma power_kw_samples:
  "power_kw (PInt 0) (PInt 5) = PInt 0"
  "power_kw (PInt 50) (PInt 10) = PFloat (Finite (1 / 2))"
  "power_kw (PFloat (Finite (387 / 8))) (PFloat (Finite (5 / 2)))
     = PFloat (Finite (272467777455915 / 2251799813685248))"
  by code_simp+

lemma string_balance_samples:
  "string_balance (PInt 1000) (PInt 3000) = PFloat (Finite (2343279181116211 / 70368744177664))"
  "string_balance (PInt 1200) (PFloat (Finite 1500)) = PFloat (Finite 80)"
  "string_balance (PInt 0) (PInt 3000) = PInt 100"
  "string_balance (PInt 3000) (PInt (- 5)) = PInt 100"
  "string_balance (PInt 0) (PInt 0) = PInt 100"
  by code_simp+

lemma autarky_samples:
  "autarky_rate (PInt 5) (PInt 8) (PInt 10) = PInt 0"
  "autarky_rate (PInt 1) (PInt 0) (PInt 16) = PFloat (Finite (6980579422424269 / 1125899906842624))"
  "autarky_rate_unrounded (PInt 1) (PInt 0) (PInt 16) = PFloat (Finite (25 / 4))"
  "autarky_rate (PInt 20) (PInt 0) (PInt 10) = PInt 100"
  "autarky_rate (PInt 5) (PInt 0) (PInt 0) = PInt 0"
  "autarky_rate (PFloat (Finite (15 / 2))) (PInt 2) (PInt 9)
     = PFloat (Finite (8599060538510541 / 140737488355328))"
  by code_simp+

lemma net_export_samples:
  "net_export (PInt 2) (PInt 7) = PInt 0"
  "net_export (PInt 8) (PInt 0) = PInt 8"
  "net_export (PFloat (Finite (3217 / 1024))) (PInt 0)
     = PFloat (Finite (7070651414971679 / 2251799813685248))"
  "net_export (PFloat (Finite (29 / 4))) (PInt 2) = PFloat (Finite (21 / 4))"
  by code_simp+

lemma reading_samples:
  "reading (PInt 1500)" "reading (PInt 5)" "reading (PInt 98)" "reading (PInt 1000)"
  "reading (PInt 3000)" "reading (PInt 1)" "reading (PInt 16)" "reading (PInt 2)" "reading (PInt 7)"
  "reading (PInt 8)" "reading (PInt 9)"
  "reading (PFloat (Finite (4939 / 4)))" "reading (PFloat (Finite (387 / 8)))"
  "reading (PFloat (Finite (5 / 2)))" "reading (PFloat (Finite (3217 / 1024)))"
  "reading (PFloat (Finite (15 / 2)))"
  by simp_all

lemma decimal_nonneg: "0 \<le> a \<Longrightarrow> 0 \<le> decimal nd a"
  by (simp add: decimal_def round_half_even_nonneg)

lemma non_negative_net_export: "non_negative (net_export exported imported)"
proof -
  let ?d = "difference exported imported"
  consider n where "?d = PInt n" | x where "?d = PFloat (Finite x)"
    by (cases "(exported, imported)" rule: difference.cases) simp_all
  then show ?thesis
  proof cases
    case 1
    then show ?thesis by (simp add: net_export_def)
  next
    case 2
    then show ?thesis
      using nearest_nonneg[OF decimal_nonneg[of x 2]] by (simp add: net_export_def)
  qed
qed

lemma in_percent_range_autarky: "in_percent_range (autarky_rate production exported consumption)"
  by (simp add: autarky_rate_def in_percent_range_clamp)

subsection \<open>Absent fields\<close>

lemma map_of_filter_key:
  "map_of (filter (\<lambda>(k, v). P k) kvs) f = (if P f then map_of kvs f else None)"
  by (induction kvs) auto

lemma dict_get_fill:
  assumes "map_of defaults f = Some d"
  shows "dict_get (fill defaults all_data) f d = dict_get all_data f d"
proof (cases "map_of all_data f")
  case None
  have "map_of (filter (\<lambda>(field, d). map_of all_data field = None) defaults) f
      = map_of defaults f"
    using None map_of_filter_key[of "\<lambda>field. map_of all_data field = None" defaults f] by simp
  then show ?thesis using None assms by (simp add: dict_get_def fill_def map_add_def)
next
  case (Some v)
  then show ?thesis by (simp add: dict_get_def fill_def map_add_def)
qed

lemma empty_views:
  "get_energy_flow_data [] = Inr [(''pv_power'', PFloat (Finite 0)),
     (''consumption_power'', PFloat (Finite 0)), (''battery_power'', PFloat (Finite 0)),
     (''grid_power'', PFloat (Finite 0))]"
  "get_battery_data [] = Inr [(''soc'', PInt 0), (''temperature'', PInt 20), (''voltage'', PInt 0),
     (''current'', PInt 0), (''capacity_ah'', PInt 0), (''health'', PInt 100)]"
  "get_string_data [] = Inr [(''string1_power'', PFloat (Finite 0)),
     (''string2_power'', PFloat (Finite 0)), (''string1_voltage'', PInt 0),
     (''string2_voltage'', PInt 0), (''string1_current'', PInt 0), (''string2_current'', PInt 0),
     (''balance_percentage'', PInt 100)]"
  "get_system_health_data [] = Inr [(''inverter_temp'', PInt 0),
     (''grid_frequency'', PFloat (Finite 50)), (''grid_voltage'', PFloat (Finite 230)),
     (''cpu_load'', PInt 0), (''memory_usage'', PInt 0), (''system_uptime'', PInt 0)]"
  "get_daily_summary [] = Inr [(''production_today'', PInt 0), (''consumption_today'', PInt 0),
     (''grid_export_today'', PInt 0), (''autarky_rate'', PInt 0)]"
  by code_simp+

lemma empty_comprehensive_views:
  "get_power_comprehensive [] = Inr [(''production_total'', PFloat (Finite 0)),
     (''consumption_total'', PFloat (Finite 0)), (''external_total'', PFloat (Finite 0)),
     (''house_total'', PFloat (Finite 0)), (''dc_string1'', PFloat (Finite 0)),
     (''dc_string2'', PFloat (Finite 0)), (''dc_total'', PFloat (Finite 0)),
     (''ac_phase_a'', PFloat (Finite 0)), (''ac_phase_b'', PFloat (Finite 0)),
     (''ac_phase_c'', PFloat (Finite 0)), (''battery_charge_discharge'', PFloat (Finite 0)),
     (''battery_charge_discharge_set'', PFloat (Finite 0)),
     (''battery_charge_max'', PFloat (Finite 0)), (''battery_discharge_max'', PFloat (Finite 0)),
     (''storage_total'', PFloat (Finite 0)), (''grid_export'', PFloat (Finite 0)),
     (''power_factor'', PInt 0), (''reactive_power'', PFloat (Finite 0)),
     (''wallbox_charging'', PFloat (Finite 0)), (''wallbox_offered'', PFloat (Finite 0)),
     (''wallbox_requested'', PFloat (Finite 0))]"
  "get_energy_comprehensive [] = Inr [(''battery_ah'', PInt 0), (''battery_charge_level'', PInt 0),
     (''battery_charge_level_absolute'', PInt 0), (''battery_charge_load'', PInt 0),
     (''storage_level'', PInt 0), (''percent_storage_level'', PInt 0),
     (''battery_charge_day'', PInt 0), (''battery_discharge_day'', PInt 0),
     (''consumption_total_day'', PInt 0), (''production_total_day'', PInt 0),
     (''grid_export_day'', PInt 0), (''grid_import_day'', PInt 0),
     (''external_total_in_day'', PInt 0), (''external_total_out_day'', PInt 0),
     (''storage_total_in_day'', PInt 0), (''storage_total_out_day'', PInt 0),
     (''battery_charge_lifetime'', PInt 0), (''battery_discharge_lifetime'', PInt 0),
     (''consumption_total_lifetime'', PInt 0), (''production_total_lifetime'', PInt 0),
     (''grid_export_lifetime'', PInt 0), (''grid_import_lifetime'', PInt 0),
     (''wallbox_charged_total'', PInt 0)]"
  "get_voltage_comprehensive [] = Inr [(''battery'', PInt 0), (''phase_a'', PInt 0),
     (''phase_b'', PInt 0), (''phase_c'', PInt 0), (''phase_average'', PFloat (Finite 0)),
     (''string1'', PInt 0), (''string2'', PInt 0), (''wallbox_phase_a'', PInt 0),
     (''wallbox_phase_b'', PInt 0), (''wallbox_phase_c'', PInt 0)]"
  "get_current_comprehensive [] = Inr [(''battery'', PInt 0), (''string1'', PInt 0),
     (''string2'', PInt 0), (''wallbox_phase_a'', PInt 0), (''wallbox_phase_b'', PInt 0),
     (''wallbox_phase_c'', PInt 0)]"
  "get_temperature_comprehensive [] = Inr [(''battery'', PInt 0), (''housing_inside'', PInt 0)]"
  "get_battery_comprehensive [] = Inr [(''soc_percent'', PInt 0), (''soh_percent'', PInt 100),
     (''charge_level_max'', PInt 100), (''charge_level_min'', PInt 10),
     (''charge_level_min_on_grid'', PInt 10), (''voltage'', PInt 0), (''current'', PInt 0),
     (''capacity_ah'', PInt 0), (''power_kw'', PInt 0), (''capacity_kwh'', PInt 0),
     (''available_kwh'', PInt 0), (''temperature'', PInt 0), (''charged_today_kwh'', PInt 0),
     (''discharged_today_kwh'', PInt 0), (''charged_lifetime_mwh'', PInt 0),
     (''discharged_lifetime_mwh'', PInt 0)]"
  by code_simp+

lemma filled_views:
  "get_energy_flow_data (fill energy_flow_defaults all_data) = get_energy_flow_data all_data"
  "get_battery_data (fill battery_defaults all_data) = get_battery_data all_data"
  "get_string_data (fill string_defaults all_data) = get_string_data all_data"
  "get_system_health_data (fill system_health_defaults all_data) = get_system_health_data all_data"
  "get_daily_summary (fill daily_defaults all_data) = get_daily_summary all_data"
  by (simp_all add: get_energy_flow_data_def get_battery_data_def get_string_data_def
      get_system_health_data_def get_daily_summary_def dict_get_fill
      energy_flow_defaults_def battery_defaults_def string_defaults_def
      system_health_defaults_def daily_defaults_def)

lemma filled_comprehensive_views:
  "get_power_comprehensive (fill power_defaults all_data) = get_power_comprehensive all_data"
  "get_energy_comprehensive (fill energy_defaults all_data) = get_energy_comprehensive all_data"
  "get_voltage_comprehensive (fill voltage_defaults all_data) = get_voltage_comprehensive all_data"
  "get_current_comprehensive (fill current_defaults all_data) = get_current_comprehensive all_data"
  "get_temperature_comprehensive (fill temperature_defaults all_data)
     = get_temperature_comprehensive all_data"
  "get_battery_comprehensive (fill battery_comprehensive_defaults all_data)
     = get_battery_comprehensive all_data"
  by (simp_all add: get_power_comprehensive_def get_energy_comprehensive_def
      get_voltage_comprehensive_def get_current_comprehensive_def
      get_temperature_comprehensive_def get_battery_comprehensive_def dict_get_fill
      power_defaults_def energy_defaults_def voltage_defaults_def current_defaults_def
      temperature_defaults_def battery_comprehensive_defaults_def)

section \<open>The claims\<close>



text \<open>
  C3. The claim fails where it says that every absent field is substituted by 0: the battery
  view of the dashboard fetcher substitutes 20 for an absent \<open>Temperature.Battery\<close> and 100
  for an absent \<open>Battery.SOH\<close>, so that the empty raw field map and the map that holds 0
  for both give different outputs; its system view substitutes 50.0 for the grid frequency
  and 230 for each phase voltage. What holds: every view computes on the raw field map as
  on the same map completed with the view's defaults (0 for every field, except those two
  of the battery view, those four of the system view, and in the comprehensive battery view
  100 for \<open>Battery.SOH\<close> and \<open>Battery.ChargeLevel.Max\<close>, 10 for
  \<open>Battery.ChargeLevel.Min\<close> and \<open>Battery.ChargeLevel.MinOnGrid\<close>); and on the empty
  raw field map every view returns, without an error, the fully populated output that
  follows.
\<close>

theorem absent_fields_take_defaults:
  "get_energy_flow_data (fill energy_flow_defaults all_data) = get_energy_flow_data all_data
   \<and> get_battery_data (fill battery_defaults all_data) = get_battery_data all_data
   \<and> get_string_data (fill string_defaults all_data) = get_string_data all_data
   \<and> get_system_health_data (fill system_health_defaults all_data)
       = get_system_health_data all_data
   \<and> get_daily_summary (fill daily_defaults all_data) = get_daily_summary all_data
   \<and> get_power_comprehensive (fill power_defaults all_data) = get_power_comprehensive all_data
   \<and> get_energy_comprehensive (fill energy_defaults all_data) = get_energy_comprehensive all_data
   \<and> get_voltage_comprehensive (fill voltage_defaults all_data)
       = get_voltage_comprehensive all_data
   \<and> get_current_comprehensive (fill current_defaults all_data)
       = get_current_comprehensive all_data
   \<and> get_temperature_comprehensive (fill temperature_defaults all_data)
       = get_temperature_comprehensive all_data
   \<and> get_battery_comprehensive (fill battery_comprehensive_defaults all_data)
       = get_battery_comprehensive all_data
   \<and> get_energy_flow_data [] = Inr [(''pv_power'', PFloat (Finite 0)),
         (''consumption_power'', PFloat (Finite 0)), (''battery_power'', PFloat (Finite 0)),
         (''grid_power'', PFloat (Finite 0))]
   \<and> get_battery_data [] = Inr [(''soc'', PInt 0), (''temperature'', PInt 20),
         (''voltage'', PInt 0), (''current'', PInt 0), (''capacity_ah'', PInt 0),
         (''health'', PInt 100)]
   \<and> get_string_data [] = Inr [(''string1_power'', PFloat (Finite 0)),
         (''string2_power'', PFloat (Finite 0)), (''string1_voltage'', PInt 0),
         (''string2_voltage'', PInt 0), (''string1_current'', PInt 0),
         (''string2_current'', PInt 0), (''balance_percentage'', PInt 100)]
   \<and> get_system_health_data [] = Inr [(''inverter_temp'', PInt 0),
         (''grid_frequency'', PFloat (Finite 50)), (''grid_voltage'', PFloat (Finite 230)),
         (''cpu_load'', PInt 0), (''memory_usage'', PInt 0), (''system_uptime'', PInt 0)]
   \<and> get_daily_summary [] = Inr [(''production_today'', PInt 0), (''consumption_today'', PInt 0),
         (''grid_export_today'', PInt 0), (''autarky_rate'', PInt 0)]
   \<and> get_power_comprehensive [] = Inr [(''production_total'', PFloat (Finite 0)),
         (''consumption_total'', PFloat (Finite 0)), (''external_total'', PFloat (Finite 0)),
         (''house_total'', PFloat (Finite 0)), (''dc_string1'', PFloat (Finite 0)),
         (''dc_string2'', PFloat (Finite 0)), (''dc_total'', PFloat (Finite 0)),
         (''ac_phase_a'', PFloat (Finite 0)), (''ac_phase_b'', PFloat (Finite 0)),
         (''ac_phase_c'', PFloat (Finite 0)), (''battery_charge_discharge'', PFloat (Finite 0)),
         (''battery_charge_discharge_set'', PFloat (Finite 0)),
         (''battery_charge_max'', PFloat (Finite 0)), (''battery_discharge_max'', PFloat (Finite 0)),
         (''storage_total'', PFloat (Finite 0)), (''grid_export'', PFloat (Finite 0)),
         (''power_factor'', PInt 0), (''reactive_power'', PFloat (Finite 0)),
         (''wallbox_charging'', PFloat (Finite 0)), (''wallbox_offered'', PFloat (Finite 0)),
         (''wallbox_requested'', PFloat (Finite 0))]
   \<and> get_energy_comprehensive [] = Inr [(''battery_ah'', PInt 0),
         (''battery_charge_level'', PInt 0), (''battery_charge_level_absolute'', PInt 0),
         (''battery_charge_load'', PInt 0), (''storage_level'', PInt 0),
         (''percent_storage_level'', PInt 0), (''battery_charge_day'', PInt 0),
         (''battery_discharge_day'', PInt 0), (''consumption_total_day'', PInt 0),
         (''production_total_day'', PInt 0), (''grid_export_day'', PInt 0),
         (''grid_import_day'', PInt 0), (''external_total_in_day'', PInt 0),
         (''external_total_out_day'', PInt 0), (''storage_total_in_day'', PInt 0),
         (''storage_total_out_day'', PInt 0), (''battery_charge_lifetime'', PInt 0),
         (''battery_discharge_lifetime'', PInt 0), (''consumption_total_lifetime'', PInt 0),
         (''production_total_lifetime'', PInt 0), (''grid_export_lifetime'', PInt 0),
         (''grid_import_lifetime'', PInt 0), (''wallbox_charged_total'', PInt 0)]
   \<and> get_voltage_comprehensive [] = Inr [(''battery'', PInt 0), (''phase_a'', PInt 0),
         (''phase_b'', PInt 0), (''phase_c'', PInt 0), (''phase_average'', PFloat (Finite 0)),
         (''string1'', PInt 0), (''string2'', PInt 0), (''wallbox_phase_a'', PInt 0),
         (''wallbox_phase_b'', PInt 0), (''wallbox_phase_c'', PInt 0)]
   \<and> get_current_comprehensive [] = Inr [(''battery'', PInt 0), (''string1'', PInt 0),
         (''string2'', PInt 0), (''wallbox_phase_a'', PInt 0), (''wallbox_phase_b'', PInt 0),
         (''wallbox_phase_c'', PInt 0)]
   \<and> get_temperature_comprehensive [] = Inr [(''battery'', PInt 0), (''housing_inside'', PInt 0)]
   \<and> get_battery_comprehensive [] = Inr [(''soc_percent'', PInt 0), (''soh_percent'', PInt 100),
         (''charge_level_max'', PInt 100), (''charge_level_min'', PInt 10),
         (''charge_level_min_on_grid'', PInt 10), (''voltage'', PInt 0), (''current'', PInt 0),
         (''capacity_ah'', PInt 0), (''power_kw'', PInt 0), (''capacity_kwh'', PInt 0),
         (''available_kwh'', PInt 0), (''temperature'', PInt 0), (''charged_today_kwh'', PInt 0),
         (''discharged_today_kwh'', PInt 0), (''charged_lifetime_mwh'', PInt 0),
         (''discharged_lifetime_mwh'', PInt 0)]"
  by (intro conjI filled_views filled_comprehensive_views empty_views empty_comprehensive_views)

theorem absent_fields_not_zero_counterexample:
  "get_battery_data []
     = Inr [(''soc'', PInt 0), (''temperature'', PInt 20), (''voltage'', PInt 0),
            (''current'', PInt 0), (''capacity_ah'', PInt 0), (''health'', PInt 100)]
   \<and> get_battery_data [(''Temperature.Battery'', PInt 0), (''Battery.SOH'', PInt 0)]
     = Inr [(''soc'', PInt 0), (''temperature'', PInt 0), (''voltage'', PInt 0),
            (''current'', PInt 0), (''capacity_ah'', PInt 0), (''health'', PInt 0)]
   \<and> get_system_health_data []
     = Inr [(''inverter_temp'', PInt 0), (''grid_frequency'', PFloat (Finite 50)),
            (''grid_voltage'', PFloat (Finite 230)), (''cpu_load'', PInt 0),
            (''memory_usage'', PInt 0), (''system_uptime'', PInt 0)]
   \<and> get_system_health_data [(''Frequency.Grid'', PInt 0), (''Voltage.Phase.A'', PInt 0),
         (''Voltage.Phase.B'', PInt 0), (''Voltage.Phase.C'', PInt 0)]
     = Inr [(''inverter_temp'', PInt 0), (''grid_frequency'', PInt 0),
            (''grid_voltage'', PFloat (Finite 0)), (''cpu_load'', PInt 0),
            (''memory_usage'', PInt 0), (''system_uptime'', PInt 0)]"
  by code_simp



















end
